theory Spec2Isabelle
  imports Main "HOL-Library.Word" "HOL-Library.AList"
begin

section \<open>Go values used by the controllers\<close>

text \<open>
  The two controllers of \<^verbatim>\<open>prepare_modify.go\<close> (the frontend controller of package
  \<^verbatim>\<open>fe\<close> and the compute-group controller of package \<^verbatim>\<open>computegroups\<close>) are embedded
  as functions over an explicit call log. Go's \<^verbatim>\<open>int32\<close> is a 32-bit word read
  through \<open>sint\<close>; Go's \<^verbatim>\<open>int\<close> (64 bits on the platforms the operator is built for) is
  an \<open>int\<close>, since the code only compares such values and counts loop iterations with
  them. A Go \<^verbatim>\<open>error\<close> that may be \<^verbatim>\<open>nil\<close> is an \<open>error option\<close>, a pointer that
  may be \<^verbatim>\<open>nil\<close> is an \<open>option\<close>, and dereferencing \<^verbatim>\<open>nil\<close> is the panic
  \<open>NilPointerDereference\<close>. Log lines written through \<^verbatim>\<open>klog\<close> have no effect on
  any result and are left out.
\<close>

type_synonym int32 = "32 word"

datatype error =
    ErrSyntax string   \<comment> \<open>\<^verbatim>\<open>strconv.NumError\<close> of \<^verbatim>\<open>Atoi\<close> with \<^verbatim>\<open>ErrSyntax\<close>\<close>
  | ErrRange string    \<comment> \<open>\<^verbatim>\<open>strconv.NumError\<close> of \<^verbatim>\<open>Atoi\<close> with \<^verbatim>\<open>ErrRange\<close>\<close>
  | Err string         \<comment> \<open>an error returned by a collaborator, with its message\<close>

datatype panic = NilPointerDereference

subsection \<open>\<^verbatim>\<open>strings\<close> and \<^verbatim>\<open>strconv\<close>\<close>

text \<open>
  \<^verbatim>\<open>strings.Split(s, sep)\<close> for a separator of one byte, which is how both call sites
  use it: the pieces between the separators, one piece more than there are separators.
\<close>

fun Split :: "string \<Rightarrow> char \<Rightarrow> string list" where
  "Split [] sep = [[]]"
| "Split (c # cs) sep =
     (if c = sep then [] # Split cs sep
      else (case Split cs sep of [] \<Rightarrow> [[c]] | x # xs \<Rightarrow> (c # x) # xs))"

text \<open>\<^verbatim>\<open>strings.ReplaceAll(s, old, new)\<close> for \<^verbatim>\<open>old\<close> and \<^verbatim>\<open>new\<close> of one byte each.\<close>

definition ReplaceAll :: "string \<Rightarrow> char \<Rightarrow> char \<Rightarrow> string" where
  "ReplaceAll s old new = map (\<lambda>c. if c = old then new else c) s"

definition HasPrefix :: "string \<Rightarrow> string \<Rightarrow> bool" where
  "HasPrefix s pre = (take (length pre) s = pre)"

definition isDigit :: "char \<Rightarrow> bool" where
  "isDigit c = (48 \<le> (of_char c :: int) \<and> (of_char c :: int) \<le> 57)"

definition digitVal :: "char \<Rightarrow> int" where
  "digitVal c = of_char c - 48"

datatype numError = Syntax | Range

text \<open>
  The digit loop of \<^verbatim>\<open>strconv.ParseUint\<close> in base 10: a byte that is no digit is a
  syntax error, a value that leaves \<^verbatim>\<open>uint64\<close> a range error, whichever comes first.
\<close>

fun parseUint :: "string \<Rightarrow> int \<Rightarrow> numError + int" where
  "parseUint [] n = Inr n"
| "parseUint (c # cs) n =
     (if \<not> isDigit c then Inl Syntax
      else if n * 10 + digitVal c > 2 ^ 64 - 1 then Inl Range
      else parseUint cs (n * 10 + digitVal c))"

text \<open>
  \<^verbatim>\<open>strconv.Atoi\<close> for a 64-bit \<^verbatim>\<open>int\<close>: an optional sign, then at least one decimal
  digit and nothing else; the value must fit \<^verbatim>\<open>int64\<close>.
\<close>

definition Atoi :: "string \<Rightarrow> error + int" where
  "Atoi s =
     (case s of
        [] \<Rightarrow> Inl (ErrSyntax s)
      | c # cs \<Rightarrow>
          (let neg = (c = CHR ''-'');
               ds = (if c = CHR ''-'' \<or> c = CHR ''+'' then cs else s)
           in if ds = [] then Inl (ErrSyntax s)
              else (case parseUint ds 0 of
                      Inl Syntax \<Rightarrow> Inl (ErrSyntax s)
                    | Inl Range \<Rightarrow> Inl (ErrRange s)
                    | Inr un \<Rightarrow>
                        if \<not> neg \<and> un \<ge> 2 ^ 63 then Inl (ErrRange s)
                        else if neg \<and> un > 2 ^ 63 then Inl (ErrRange s)
                        else Inr (if neg then - un else un))))"

fun natDigits :: "nat \<Rightarrow> string" where
  "natDigits n =
     (if n < 10 then [''0123456789'' ! n]
      else natDigits (n div 10) @ [''0123456789'' ! (n mod 10)])"

text \<open>\<^verbatim>\<open>strconv.Itoa\<close>, and \<^verbatim>\<open>strconv.FormatInt\<close> in base 10.\<close>

definition Itoa :: "int \<Rightarrow> string" where
  "Itoa i = (if i < 0 then CHR ''-'' # natDigits (nat (- i)) else natDigits (nat i))"

text \<open>
  \<^verbatim>\<open>err.Error()\<close>. The number of a \<^verbatim>\<open>NumError\<close> is printed between double quotes
  (character 0x22); the escapes \<^verbatim>\<open>strconv.Quote\<close> adds for bytes that do not print are
  not reproduced.
\<close>

fun ErrorString :: "error \<Rightarrow> string" where
  "ErrorString (ErrSyntax s) =
     ''strconv.Atoi: parsing '' @ [CHR 0x22] @ s @ [CHR 0x22] @ '': invalid syntax''"
| "ErrorString (ErrRange s) =
     ''strconv.Atoi: parsing '' @ [CHR 0x22] @ s @ [CHR 0x22] @ '': value out of range''"
| "ErrorString (Err m) = m"

section \<open>Data model\<close>

text \<open>
  The Kubernetes objects, the custom resources and the rows of the SQL client are
  declared outside this file of the repository. Each record keeps the fields that the
  controllers read or write here (and, for the rows, a few that tell two rows apart).
\<close>

record ObjectMeta =
  Namespace :: string
  Name :: string

type_synonym Labels = "(string \<times> string) list"
type_synonym Secret = "(string \<times> string) list"
type_synonym ConfMap = "(string \<times> string) list"

record StatefulSet = ObjectMeta +
  Spec_Replicas :: "int32 option"

record Pod = ObjectMeta +
  Status_PodIP :: string

record PersistentVolumeClaim = ObjectMeta +
  PVCLabels :: Labels

record Backend =
  BackendID :: string
  Host :: string
  HeartbeatPort :: int

record Frontend =
  FrontendName :: string
  FrontendHost :: string
  EditLogPort :: int

record DBConfig =
  User :: string
  Password :: string
  DBHost :: string
  Port :: string
  Database :: string

datatype ComponentType = Component_FE | Component_BE

text \<open>\<^verbatim>\<open>v1.DorisCluster\<close>, the resource of the frontend controller.\<close>

record DorisCluster = ObjectMeta +
  Spec_AuthSecret :: string
  Spec_FeSpec_Replicas :: "int32 option"
  Spec_FeSpec_ConfigMapInfo :: string

text \<open>
  Modelled from the spec: the type \<^verbatim>\<open>dv1.Phase\<close> of the phases of a compute group
  is declared outside this file; section 3 of the specification gives it as the closed
  enumeration below.
\<close>

datatype Phase =
  Reconciling | Scaling | Ready | Suspended | SuspendFailed | ResumeFailed | ScaleDownFailed

record ComputeGroup =
  UniqueId :: string
  Replicas :: "int32 option"
  CommonSpec_ConfigMaps :: "string list"

record ComputeGroupStatus =
  Phase :: Phase
  UniqueId :: string
  StatefulsetName :: string
  ServiceName :: string
  Replicas :: int32
  AvailableReplicas :: int32
  SuspendReplicas :: int32

text \<open>\<^verbatim>\<open>dv1.DorisDisaggregatedCluster\<close>, the resource of the compute-group controller.\<close>

record DorisDisaggregatedCluster = ObjectMeta +
  DSpec_AuthSecret :: string
  DSpec_FeSpec_ConfigMaps :: "string list"
  Spec_ComputeGroups :: "ComputeGroup list"
  Status_ComputeGroupStatuses :: "ComputeGroupStatus list"

datatype EventType = EventNormal | EventWarning

datatype EventReason =
    FESpecSetError | CGCreateResourceFailed | CGApplyResourceFailed | CGSqlExecFailed
  | CGStatefulsetDeleteFailed | CGServiceDeleteFailed | PVCListFailed | PVCDeleteFailed

record Event =
  Type :: EventType
  Reason :: EventReason
  Message :: string

section \<open>The collaborators\<close>

text \<open>
  Every call that leaves the controller (the Kubernetes client, the event recorder, the
  SQL client of the master frontend) is written to a log, in the order of the calls and
  with the result where the controller looks at it. The log is the state the functions
  below pass along: a collaborator answers as a function of the calls made so far, which
  lets an answer change after a removal or a deletion.
\<close>

datatype call =
    Call_GetSecret string string
  | Call_GetConfig string string ComponentType
  | Call_GetConfigValuesFromConfigMaps string string "string list"
  | Call_GetPods string Labels "error + Pod list"
  | Call_Get_StatefulSet string string "error + StatefulSet"
  | Call_List_PVC string Labels "error + PersistentVolumeClaim list"
  | Call_CreateClientObject StatefulSet "error option"
  | Call_ApplyStatefulSet StatefulSet "error option"
  | Call_DeleteStatefulset string string "error option"
  | Call_DeleteService string string "error option"
  | Call_DeletePVC string string Labels "error option"
  | Call_Event EventType EventReason string
  | Call_NewDorisMasterSqlDB DBConfig "error option"
  | Call_Close
  | Call_GetObservers "error + Frontend list"
  | Call_GetBackendsByCGName string "error + Backend list"
  | Call_DropObserver "Frontend list" "error option"
  | Call_DropBE "Backend list" "error option"

text \<open>
  The answers of the collaborators. A field that takes the log is a call with an effect
  or a read of the cluster; the others are the pure helpers and the constants of the
  packages \<^verbatim>\<open>k8s\<close>, \<^verbatim>\<open>mysql\<close>, \<^verbatim>\<open>resource\<close>, \<^verbatim>\<open>utils\<close> and of the two API
  packages, none of which is part of this file of the repository: they are parameters.
\<close>

record env =
  GetSecret :: "call list \<Rightarrow> string \<Rightarrow> string \<Rightarrow> Secret option"
  GetConfig :: "call list \<Rightarrow> string \<Rightarrow> string \<Rightarrow> ComponentType \<Rightarrow> ConfMap"
  GetConfigValuesFromConfigMaps :: "call list \<Rightarrow> string \<Rightarrow> string \<Rightarrow> string list \<Rightarrow> ConfMap"
  GetPods :: "call list \<Rightarrow> string \<Rightarrow> Labels \<Rightarrow> error + Pod list"
  K8sclient_Get_StatefulSet :: "call list \<Rightarrow> string \<Rightarrow> string \<Rightarrow> error + StatefulSet"
  K8sclient_List_PVC :: "call list \<Rightarrow> string \<Rightarrow> Labels \<Rightarrow> error + PersistentVolumeClaim list"
  CreateClientObject :: "call list \<Rightarrow> StatefulSet \<Rightarrow> error option"
  ApplyStatefulSet :: "call list \<Rightarrow> StatefulSet \<Rightarrow> error option"
  DeleteStatefulset :: "call list \<Rightarrow> string \<Rightarrow> string \<Rightarrow> error option"
  DeleteService :: "call list \<Rightarrow> string \<Rightarrow> string \<Rightarrow> error option"
  DeletePVC :: "call list \<Rightarrow> string \<Rightarrow> string \<Rightarrow> Labels \<Rightarrow> error option"
  NewDorisMasterSqlDB :: "call list \<Rightarrow> DBConfig \<Rightarrow> error option"
  GetObservers :: "call list \<Rightarrow> error + Frontend list"
  GetBackendsByCGName :: "call list \<Rightarrow> string \<Rightarrow> error + Backend list"
  DropObserver :: "call list \<Rightarrow> Frontend list \<Rightarrow> error option"
  DropBE :: "call list \<Rightarrow> Backend list \<Rightarrow> error option"
  IsNotFound :: "error \<Rightarrow> bool"
  BuildSeqNumberToFrontendMap ::
    "Frontend list \<Rightarrow> (string \<rightharpoonup> string) option \<Rightarrow> string \<Rightarrow> error + (int \<times> Frontend) list"
  GetDorisLoginInformation :: "Secret option \<Rightarrow> string \<times> string"
  GetClusterSecret :: "DorisCluster \<Rightarrow> Secret option \<Rightarrow> string \<times> string"
  GenerateExternalServiceName :: "DorisCluster \<Rightarrow> ComponentType \<Rightarrow> string"
  GenerateComponentStatefulSetName :: "DorisCluster \<Rightarrow> ComponentType \<Rightarrow> string"
  GeneratePodTemplateName :: "DorisCluster \<Rightarrow> ComponentType \<Rightarrow> string"
  GetPodLabels :: "DorisCluster \<Rightarrow> ComponentType \<Rightarrow> Labels"
  GetElectionNumber :: "DorisCluster \<Rightarrow> int32"
  GetPort :: "ConfMap \<Rightarrow> string \<Rightarrow> int32"
  GetStartMode :: "ConfMap \<Rightarrow> string"
  QUERY_PORT :: string
  START_MODEL_FQDN :: string
  FE_RESOLVEKEY :: string
  BE_RESOLVEKEY :: string
  GetFEVIPAddresss :: "DorisDisaggregatedCluster \<Rightarrow> string"
  GetCGName :: "DorisDisaggregatedCluster \<Rightarrow> ComputeGroup \<Rightarrow> string"
  GetCGStatefulsetName :: "DorisDisaggregatedCluster \<Rightarrow> ComputeGroup \<Rightarrow> string"
  GetCGServiceName :: "DorisDisaggregatedCluster \<Rightarrow> ComputeGroup \<Rightarrow> string"
  newCGPodsSelector :: "string \<Rightarrow> string \<Rightarrow> Labels"
  getCacheMaxSizeAndPaths :: "ConfMap \<Rightarrow> string list"
  BuildPVCName :: "string \<Rightarrow> string \<Rightarrow> string \<Rightarrow> string"
  LogStoreName :: string
  StorageStorePreName :: string
  MergeError :: "error option \<Rightarrow> error \<Rightarrow> error option"

section \<open>The frontend controller\<close>

subsection \<open>\<^verbatim>\<open>dropObserverBySqlClient\<close>\<close>

text \<open>
  Modelled from the spec: \<^verbatim>\<open>mysql.FindNeedDeletedFrontends\<close> is not part of this
  file of the repository. Section 4.2, step 5 of the specification has it select
  \<^verbatim>\<open>needRemoved\<close> nodes from the resolved ordinal mapping, highest ordinals first,
  and section 8 bounds the selection by the nodes that are available. The mapping is
  the list of its entries; a key stands for its first entry.
\<close>

definition FindNeedDeletedFrontends :: "(int \<times> Frontend) list \<Rightarrow> int32 \<Rightarrow> Frontend list" where
  "FindNeedDeletedFrontends frontendMap needRemovedAmount =
     (let keys = rev (sort (remdups (map fst frontendMap)))
      in List.map_filter (map_of frontendMap) (take (nat (sint needRemovedAmount)) keys))"

text \<open>The loop over the pods that fills \<^verbatim>\<open>podMap\<close>, from pod IP to pod name.\<close>

fun buildPodMap :: "Pod list \<Rightarrow> string \<Rightarrow> (string \<rightharpoonup> string) \<Rightarrow> (string \<rightharpoonup> string)" where
  "buildPodMap [] podTemplateName podMap = podMap"
| "buildPodMap (item # items) podTemplateName podMap =
     buildPodMap items podTemplateName
       (if HasPrefix (Name item) podTemplateName
        then podMap(Status_PodIP item \<mapsto> Name item) else podMap)"

text \<open>
  The last two statements of \<^verbatim>\<open>dropObserverBySqlClient\<close>, which both branches of the
  start mode reach with their \<^verbatim>\<open>frontendMap\<close>: select, drop, and return what the drop
  returned.
\<close>

definition dropSelected ::
  "env \<Rightarrow> (int \<times> Frontend) list \<Rightarrow> int32 \<Rightarrow> call list \<Rightarrow> error option \<times> call list"
where
  "dropSelected e frontendMap needRemovedAmount log =
     (let observes = FindNeedDeletedFrontends frontendMap needRemovedAmount;
          r = DropObserver e log observes
      in (r, log @ [Call_DropObserver observes r, Call_Close]))"

text \<open>
  The block that fills \<^verbatim>\<open>frontendMap\<close>: with the host names when the start mode is
  FQDN, and otherwise with the map from pod IP to pod name of the pods of the frontend.
  It returns the mapping or the error of the step that failed, \<^verbatim>\<open>GetPods\<close> or
  \<^verbatim>\<open>BuildSeqNumberToFrontendMap\<close>; after each of these errors the source has its own
  \<^verbatim>\<open>return nil\<close>, which is the one \<open>Inr (None, _)\<close> of \<open>dropObserverBySqlClient\<close>
  below.
\<close>

definition resolveFrontendMap ::
  "env \<Rightarrow> DorisCluster \<Rightarrow> ConfMap \<Rightarrow> Frontend list \<Rightarrow> call list \<Rightarrow>
     (error + (int \<times> Frontend) list) \<times> call list"
where
  "resolveFrontendMap e targetDCR maps allObserves log =
     (let podTemplateName = GeneratePodTemplateName e targetDCR Component_FE
      in if GetStartMode e maps = START_MODEL_FQDN e
         then (BuildSeqNumberToFrontendMap e allObserves None podTemplateName, log)
         else
           (let labels = GetPodLabels e targetDCR Component_FE;
                pods = GetPods e log (Namespace targetDCR) labels;
                log5 = log @ [Call_GetPods (Namespace targetDCR) labels pods]
            in case pods of
                 Inl err \<Rightarrow> (Inl err, log5)
               | Inr items \<Rightarrow>
                   (let podMap = buildPodMap items podTemplateName Map.empty
                    in (BuildSeqNumberToFrontendMap e allObserves (Some podMap) podTemplateName,
                        log5))))"

definition dropObserverBySqlClient ::
  "env \<Rightarrow> DorisCluster \<Rightarrow> call list \<Rightarrow> panic + (error option \<times> call list)"
where
  "dropObserverBySqlClient e targetDCR log =
     (let secret = GetSecret e log (Namespace targetDCR) (Spec_AuthSecret targetDCR);
          log1 = log @ [Call_GetSecret (Namespace targetDCR) (Spec_AuthSecret targetDCR)];
          (adminUserName, password) = GetClusterSecret e targetDCR secret;
          serviceName = GenerateExternalServiceName e targetDCR Component_FE;
          host = serviceName @ ''.'' @ Namespace targetDCR;
          maps = GetConfig e log1 (Spec_FeSpec_ConfigMapInfo targetDCR) (Namespace targetDCR)
                   Component_FE;
          log2 = log1 @ [Call_GetConfig (Spec_FeSpec_ConfigMapInfo targetDCR)
                           (Namespace targetDCR) Component_FE];
          queryPort = GetPort e maps (QUERY_PORT e);
          dbConf = \<lparr>User = adminUserName, Password = password, DBHost = host,
                    Port = Itoa (sint queryPort), Database = ''mysql''\<rparr>
      in case NewDorisMasterSqlDB e log2 dbConf of
           Some err \<Rightarrow> Inr (Some err, log2 @ [Call_NewDorisMasterSqlDB dbConf (Some err)])
         | None \<Rightarrow>
             (let log3 = log2 @ [Call_NewDorisMasterSqlDB dbConf None]
              in case GetObservers e log3 of
                   Inl err \<Rightarrow> Inr (Some err, log3 @ [Call_GetObservers (Inl err), Call_Close])
                 | Inr allObserves \<Rightarrow>
                     (let log4 = log3 @ [Call_GetObservers (Inr allObserves)];
                          electionNumber = GetElectionNumber e targetDCR
                      in case Spec_FeSpec_Replicas targetDCR of
                           None \<Rightarrow> Inl NilPointerDereference
                         | Some replicas \<Rightarrow>
                             (let needRemovedAmount =
                                    (of_nat (length allObserves) :: int32) - replicas + electionNumber
                              in if sint needRemovedAmount \<le> 0 then Inr (None, log4 @ [Call_Close])
                                 else (case resolveFrontendMap e targetDCR maps allObserves log4 of
                                         (Inl err, log5) \<Rightarrow> Inr (None, log5 @ [Call_Close])
                                       | (Inr frontendMap, log5) \<Rightarrow>
                                           Inr (dropSelected e frontendMap needRemovedAmount log5))))))"

subsection \<open>\<^verbatim>\<open>prepareStatefulsetApply\<close>\<close>

definition prepareStatefulsetApply ::
  "env \<Rightarrow> DorisCluster \<Rightarrow> call list \<Rightarrow> panic + (error option \<times> DorisCluster \<times> call list)"
where
  "prepareStatefulsetApply e cluster log =
     (let stsName = GenerateComponentStatefulSetName e cluster Component_FE;
          got = K8sclient_Get_StatefulSet e log (Namespace cluster) stsName;
          log1 = log @ [Call_Get_StatefulSet (Namespace cluster) stsName got]
      in case got of
           Inl err \<Rightarrow> Inr (None, cluster, log1)
         | Inr oldSt \<Rightarrow>
             (let cluster1 = (if Spec_FeSpec_Replicas cluster = None
                              then cluster\<lparr>Spec_FeSpec_Replicas := Some 0\<rparr> else cluster);
                  replicas = (case Spec_FeSpec_Replicas cluster1 of None \<Rightarrow> 0 | Some r \<Rightarrow> r);
                  ele = GetElectionNumber e cluster1;
                  corrected = (sint replicas < sint ele);
                  log2 = (if corrected
                          then log1 @ [Call_Event EventWarning FESpecSetError
                                 ''The number of fe ElectionNumber is large than Replicas, Replicas has been corrected to the correct minimum value'']
                          else log1);
                  cluster2 = (if corrected then cluster1\<lparr>Spec_FeSpec_Replicas := Some ele\<rparr>
                              else cluster1);
                  replicas2 = (if corrected then ele else replicas)
              in case Spec_Replicas oldSt of
                   None \<Rightarrow> Inl NilPointerDereference
                 | Some old \<Rightarrow>
                     (let wroa = replicas2 - old
                      in if sint wroa < 0
                         then (case dropObserverBySqlClient e cluster2 log2 of
                                 Inl p \<Rightarrow> Inl p
                               | Inr (Some err, log3) \<Rightarrow> Inr (Some err, cluster2, log3)
                               | Inr (None, log3) \<Rightarrow> Inr (None, cluster2, log3))
                         else Inr (None, cluster2, log2))))"

section \<open>The compute-group controller\<close>

subsection \<open>\<^verbatim>\<open>scaledOutBENodesBySQL\<close>\<close>

text \<open>
  The ordinal of a backend: the first piece of the host before a dot, its last piece
  after a dash, read by \<^verbatim>\<open>Atoi\<close>. \<^verbatim>\<open>Split\<close> never returns an empty slice (lemma
  \<open>Split_not_Nil\<close>), so the two index expressions of the source cannot panic.
\<close>

definition podNumOf :: "string \<Rightarrow> error + int" where
  "podNumOf host =
     (let split = Split host CHR ''.'';
          splitCGIDArr = Split (hd split) CHR ''-''
      in Atoi (last splitCGIDArr))"

text \<open>
  The loop over \<^verbatim>\<open>allBackends\<close>: the nodes seen so far whose ordinal is at least the
  keep amount, or the first error of \<^verbatim>\<open>Atoi\<close>, which ends the function.
\<close>

fun dropNodesLoop :: "Backend list \<Rightarrow> int32 \<Rightarrow> Backend list \<Rightarrow> error + Backend list" where
  "dropNodesLoop [] cgKeepAmount dropNodes = Inr dropNodes"
| "dropNodesLoop (node # rest) cgKeepAmount dropNodes =
     (case podNumOf (Host node) of
        Inl err \<Rightarrow> Inl err
      | Inr podNum \<Rightarrow>
          if podNum \<ge> sint cgKeepAmount
          then dropNodesLoop rest cgKeepAmount (dropNodes @ [node])
          else dropNodesLoop rest cgKeepAmount dropNodes)"

definition scaledOutBENodesBySQL ::
  "env \<Rightarrow> DorisDisaggregatedCluster \<Rightarrow> string \<Rightarrow> int32 \<Rightarrow> call list \<Rightarrow> error option \<times> call list"
where
  "scaledOutBENodesBySQL e cluster cgName cgKeepAmount log =
     (let secret = GetSecret e log (Namespace cluster) (DSpec_AuthSecret cluster);
          log1 = log @ [Call_GetSecret (Namespace cluster) (DSpec_AuthSecret cluster)];
          (adminUserName, password) = GetDorisLoginInformation e secret;
          host = GetFEVIPAddresss e cluster;
          confMap = GetConfigValuesFromConfigMaps e log1 (Namespace cluster) (FE_RESOLVEKEY e)
                      (DSpec_FeSpec_ConfigMaps cluster);
          log2 = log1 @ [Call_GetConfigValuesFromConfigMaps (Namespace cluster) (FE_RESOLVEKEY e)
                           (DSpec_FeSpec_ConfigMaps cluster)];
          queryPort = GetPort e confMap (QUERY_PORT e);
          dbConf = \<lparr>User = adminUserName, Password = password, DBHost = host,
                    Port = Itoa (sint queryPort), Database = ''mysql''\<rparr>
      in case NewDorisMasterSqlDB e log2 dbConf of
           Some err \<Rightarrow> (Some err, log2 @ [Call_NewDorisMasterSqlDB dbConf (Some err)])
         | None \<Rightarrow>
             (let log3 = log2 @ [Call_NewDorisMasterSqlDB dbConf None]
              in case GetBackendsByCGName e log3 cgName of
                   Inl err \<Rightarrow>
                     (Some err, log3 @ [Call_GetBackendsByCGName cgName (Inl err), Call_Close])
                 | Inr allBackends \<Rightarrow>
                     (let log4 = log3 @ [Call_GetBackendsByCGName cgName (Inr allBackends)]
                      in case dropNodesLoop allBackends cgKeepAmount [] of
                           Inl err \<Rightarrow> (Some err, log4 @ [Call_Close])
                         | Inr dropNodes \<Rightarrow>
                             if length dropNodes = 0 then (None, log4 @ [Call_Close])
                             else (case DropBE e log4 dropNodes of
                                     Some err \<Rightarrow>
                                       (Some err, log4 @ [Call_DropBE dropNodes (Some err), Call_Close])
                                   | None \<Rightarrow>
                                       (None, log4 @ [Call_DropBE dropNodes None, Call_Close])))))"

subsection \<open>\<^verbatim>\<open>getScaleType\<close> and \<^verbatim>\<open>initialCGStatus\<close>\<close>

definition getScaleType :: "StatefulSet \<Rightarrow> StatefulSet \<Rightarrow> Phase \<Rightarrow> panic + string" where
  "getScaleType st est phase =
     (case Spec_Replicas st of
        None \<Rightarrow> Inl NilPointerDereference
      | Some r \<Rightarrow>
          (case Spec_Replicas est of
             None \<Rightarrow> Inl NilPointerDereference
           | Some p \<Rightarrow>
               Inr (if sint r < sint p \<or> phase = ScaleDownFailed then ''scaleDown'' else [])))"

text \<open>
  The loop of \<^verbatim>\<open>initialCGStatus\<close> over the statuses: the first entry of the group is
  overwritten by the default status, which takes over the phase of the entry when it is
  one of the five phases tested, and its \<^verbatim>\<open>SuspendReplicas\<close>. \<open>None\<close> when no entry
  is of the group.
\<close>

fun initialCGStatusLoop ::
  "ComputeGroupStatus list \<Rightarrow> string \<Rightarrow> ComputeGroupStatus \<Rightarrow> ComputeGroupStatus list option"
where
  "initialCGStatusLoop [] uniqueId defaultStatus = None"
| "initialCGStatusLoop (s # cgss) uniqueId defaultStatus =
     (if ComputeGroupStatus.UniqueId s = uniqueId
      then Some (defaultStatus
                   \<lparr>Phase := (if Phase s = ScaleDownFailed \<or> Phase s = Suspended \<or>
                                  Phase s = SuspendFailed \<or> Phase s = ResumeFailed \<or>
                                  Phase s = Scaling
                               then Phase s else Phase defaultStatus),
                    SuspendReplicas := SuspendReplicas s\<rparr> # cgss)
      else map_option ((#) s) (initialCGStatusLoop cgss uniqueId defaultStatus))"

definition initialCGStatus ::
  "env \<Rightarrow> DorisDisaggregatedCluster \<Rightarrow> ComputeGroup \<Rightarrow> panic + DorisDisaggregatedCluster"
where
  "initialCGStatus e ddc cg =
     (case ComputeGroup.Replicas cg of
        None \<Rightarrow> Inl NilPointerDereference
      | Some replicas \<Rightarrow>
          (let cgss = Status_ComputeGroupStatuses ddc;
               uniqueId = ComputeGroup.UniqueId cg;
               defaultStatus =
                 \<lparr>Phase = Reconciling,
                  ComputeGroupStatus.UniqueId = ComputeGroup.UniqueId cg,
                  StatefulsetName = GetCGStatefulsetName e ddc cg,
                  ServiceName = GetCGServiceName e ddc cg,
                  ComputeGroupStatus.Replicas = replicas,
                  AvailableReplicas = 0,
                  SuspendReplicas = 0\<rparr>
           in case initialCGStatusLoop cgss uniqueId defaultStatus of
                Some cgss' \<Rightarrow> Inr (ddc\<lparr>Status_ComputeGroupStatuses := cgss'\<rparr>)
              | None \<Rightarrow> Inr (ddc\<lparr>Status_ComputeGroupStatuses := cgss @ [defaultStatus]\<rparr>)))"

subsection \<open>\<^verbatim>\<open>reconcileStatefulset\<close>\<close>

text \<open>The index of the first status of a group: where \<^verbatim>\<open>cgStatus\<close> points.\<close>

fun findCGStatus :: "ComputeGroupStatus list \<Rightarrow> string \<Rightarrow> nat option" where
  "findCGStatus [] uniqueId = None"
| "findCGStatus (s # cgss) uniqueId =
     (if ComputeGroupStatus.UniqueId s = uniqueId then Some 0
      else map_option Suc (findCGStatus cgss uniqueId))"

definition setPhase ::
  "DorisDisaggregatedCluster \<Rightarrow> nat \<Rightarrow> Phase \<Rightarrow> DorisDisaggregatedCluster"
where
  "setPhase cluster i p =
     cluster\<lparr>Status_ComputeGroupStatuses :=
       (Status_ComputeGroupStatuses cluster)
         [i := (Status_ComputeGroupStatuses cluster ! i)\<lparr>Phase := p\<rparr>]\<rparr>"

definition reconcileStatefulset ::
  "env \<Rightarrow> StatefulSet \<Rightarrow> DorisDisaggregatedCluster \<Rightarrow> ComputeGroup \<Rightarrow> call list \<Rightarrow>
     panic + ((Event option \<times> error option) \<times> DorisDisaggregatedCluster \<times> call list)"
where
  "reconcileStatefulset e st cluster cg log =
     (let got = K8sclient_Get_StatefulSet e log (Namespace st) (Name st);
          log1 = log @ [Call_Get_StatefulSet (Namespace st) (Name st) got]
      in case got of
           Inl err \<Rightarrow>
             if IsNotFound e err
             then (case CreateClientObject e log1 st of
                     Some err' \<Rightarrow>
                       Inr ((Some \<lparr>Type = EventWarning, Reason = CGCreateResourceFailed,
                                   Message = ErrorString err'\<rparr>, Some err'),
                            cluster, log1 @ [Call_CreateClientObject st (Some err')])
                   | None \<Rightarrow>
                       Inr ((None, None), cluster, log1 @ [Call_CreateClientObject st None]))
             else Inr ((None, Some err), cluster, log1)
         | Inr est \<Rightarrow>
             (case findCGStatus (Status_ComputeGroupStatuses cluster) (ComputeGroup.UniqueId cg) of
                None \<Rightarrow> Inl NilPointerDereference
              | Some i \<Rightarrow>
                  (case getScaleType st est (Phase (Status_ComputeGroupStatuses cluster ! i)) of
                     Inl p \<Rightarrow> Inl p
                   | Inr scaleType \<Rightarrow>
                       (case ApplyStatefulSet e log1 st of
                          Some err \<Rightarrow>
                            Inr ((Some \<lparr>Type = EventWarning, Reason = CGApplyResourceFailed,
                                        Message = ErrorString err\<rparr>, Some err),
                                 cluster, log1 @ [Call_ApplyStatefulSet st (Some err)])
                        | None \<Rightarrow>
                            (let log2 = log1 @ [Call_ApplyStatefulSet st None]
                             in if scaleType = ''scaleDown''
                                then (case ComputeGroup.Replicas cg of
                                        None \<Rightarrow> Inl NilPointerDereference
                                      | Some cgKeepAmount \<Rightarrow>
                                          (let cgName = GetCGName e cluster cg
                                           in case scaledOutBENodesBySQL e cluster cgName cgKeepAmount log2 of
                                                (Some err, log3) \<Rightarrow>
                                                  Inr ((Some \<lparr>Type = EventWarning, Reason = CGSqlExecFailed,
                                                              Message = ErrorString err\<rparr>, Some err),
                                                       setPhase cluster i ScaleDownFailed, log3)
                                              | (None, log3) \<Rightarrow>
                                                  Inr ((None, None), setPhase cluster i Scaling, log3)))
                                else Inr ((None, None), cluster, log2))))))"

subsection \<open>\<^verbatim>\<open>ClearStatefulsetUnusedPVCs\<close>\<close>

text \<open>
  The compute group of the specification with the identifier of the status: the loop has
  no \<^verbatim>\<open>break\<close>, so the last one that matches wins. \<open>None\<close> is the \<^verbatim>\<open>nil\<close> pointer.
\<close>

fun findCG :: "ComputeGroup list \<Rightarrow> string \<Rightarrow> ComputeGroup option \<Rightarrow> ComputeGroup option" where
  "findCG [] uniqueId cg = cg"
| "findCG (c # cs) uniqueId cg =
     findCG cs uniqueId (if ComputeGroup.UniqueId c = uniqueId then Some c else cg)"

text \<open>
  \<^verbatim>\<open>pvcMap\<close> is an association list with the operations of a map: a claim listed
  again under a name replaces the earlier one. Go leaves the order in which \<^verbatim>\<open>range\<close>
  visits a map open; the embedding visits the entries in the order of the list.
\<close>

fun buildPVCMap ::
  "PersistentVolumeClaim list \<Rightarrow> (string \<times> PersistentVolumeClaim) list \<Rightarrow>
     (string \<times> PersistentVolumeClaim) list"
where
  "buildPVCMap [] pvcMap = pvcMap"
| "buildPVCMap (item # items) pvcMap = buildPVCMap items (AList.update (Name item) item pvcMap)"

text \<open>The two nested loops that build \<^verbatim>\<open>reservePVCNameList\<close>.\<close>

definition reservePVCNames :: "env \<Rightarrow> string \<Rightarrow> int \<Rightarrow> string list \<Rightarrow> string list" where
  "reservePVCNames e stsName replicas paths =
     concat (map (\<lambda>i. BuildPVCName e stsName (Itoa (int i)) (LogStoreName e) #
                       map (\<lambda>j. BuildPVCName e stsName (Itoa (int i))
                                  (StorageStorePreName e @ Itoa (int j)))
                           [0..<length paths])
                 [0..<nat replicas])"

fun deleteReserved ::
  "string list \<Rightarrow> (string \<times> PersistentVolumeClaim) list \<Rightarrow> (string \<times> PersistentVolumeClaim) list"
where
  "deleteReserved [] pvcMap = pvcMap"
| "deleteReserved (pvcName # rest) pvcMap = deleteReserved rest (AList.delete pvcName pvcMap)"

text \<open>The loop that deletes what is left in \<^verbatim>\<open>pvcMap\<close>, merging the errors.\<close>

fun deletePVCLoop ::
  "env \<Rightarrow> (string \<times> PersistentVolumeClaim) list \<Rightarrow> Labels \<Rightarrow> error option \<Rightarrow> call list \<Rightarrow>
     error option \<times> call list"
where
  "deletePVCLoop e [] pvcLabels mergeError log = (mergeError, log)"
| "deletePVCLoop e ((n, claim) # rest) pvcLabels mergeError log =
     (case DeletePVC e log (Namespace claim) (Name claim) pvcLabels of
        Some err \<Rightarrow>
          deletePVCLoop e rest pvcLabels (MergeError e mergeError err)
            (log @ [Call_DeletePVC (Namespace claim) (Name claim) pvcLabels (Some err),
                    Call_Event EventWarning PVCDeleteFailed (ErrorString err)])
      | None \<Rightarrow>
          deletePVCLoop e rest pvcLabels mergeError
            (log @ [Call_DeletePVC (Namespace claim) (Name claim) pvcLabels None]))"

definition ClearStatefulsetUnusedPVCs ::
  "env \<Rightarrow> DorisDisaggregatedCluster \<Rightarrow> ComputeGroupStatus \<Rightarrow> call list \<Rightarrow>
     panic + (error option \<times> call list)"
where
  "ClearStatefulsetUnusedPVCs e ddc cgs log =
     (let cg = findCG (Spec_ComputeGroups ddc) (ComputeGroupStatus.UniqueId cgs) None;
          pvcLabels = newCGPodsSelector e (Name ddc) (ComputeGroupStatus.UniqueId cgs);
          listed = K8sclient_List_PVC e log (Namespace ddc) pvcLabels;
          log1 = log @ [Call_List_PVC (Namespace ddc) pvcLabels listed]
      in case listed of
           Inl err \<Rightarrow>
             Inr (Some err,
                  log1 @ [Call_Event EventWarning PVCListFailed
                            (''DisaggregatedComputeGroupsController ClearStatefulsetUnusedPVCs list pvc failed:'' @
                             ErrorString err @ ''!'')])
         | Inr items \<Rightarrow>
             (let pvcMap = buildPVCMap items []
              in case cg of
                   None \<Rightarrow> Inr (deletePVCLoop e pvcMap pvcLabels None log1)
                 | Some c \<Rightarrow>
                     (case ComputeGroup.Replicas c of
                        None \<Rightarrow> Inl NilPointerDereference
                      | Some r \<Rightarrow>
                          (let replicas = sint r;
                               stsName = GetCGStatefulsetName e ddc c;
                               cvs = GetConfigValuesFromConfigMaps e log1 (Namespace ddc)
                                       (BE_RESOLVEKEY e) (CommonSpec_ConfigMaps c);
                               log2 = log1 @ [Call_GetConfigValuesFromConfigMaps (Namespace ddc)
                                                (BE_RESOLVEKEY e) (CommonSpec_ConfigMaps c)];
                               paths = getCacheMaxSizeAndPaths e cvs
                           in if Phase cgs = Suspended \<or> Phase cgs = SuspendFailed \<or> replicas = 0
                              then Inr (None, log2)
                              else Inr (deletePVCLoop e
                                          (deleteReserved (reservePVCNames e stsName replicas paths) pvcMap)
                                          pvcLabels None log2)))))"

subsection \<open>\<^verbatim>\<open>ClearResources\<close>\<close>

text \<open>
  The first loop: a status whose identifier is the identifier of a compute group of the
  specification goes to \<^verbatim>\<open>eCGs\<close>, any other to \<^verbatim>\<open>clearCGs\<close>.
\<close>

fun splitCGs ::
  "ComputeGroupStatus list \<Rightarrow> ComputeGroup list \<Rightarrow>
     ComputeGroupStatus list \<Rightarrow> ComputeGroupStatus list \<Rightarrow>
     ComputeGroupStatus list \<times> ComputeGroupStatus list"
where
  "splitCGs [] spec clearCGs eCGs = (clearCGs, eCGs)"
| "splitCGs (cgs # rest) spec clearCGs eCGs =
     (if list_ex (\<lambda>cg. ComputeGroupStatus.UniqueId cgs = ComputeGroup.UniqueId cg) spec
      then splitCGs rest spec clearCGs (eCGs @ [cgs])
      else splitCGs rest spec (clearCGs @ [cgs]) eCGs)"

text \<open>
  The second loop: the StatefulSet and the Service of every status of \<^verbatim>\<open>clearCGs\<close> are
  deleted; the status goes back to \<^verbatim>\<open>eCGs\<close> when a deletion failed, and otherwise
  the backends of the group are dropped, with a warning event when that fails.
\<close>

fun clearLoop ::
  "env \<Rightarrow> DorisDisaggregatedCluster \<Rightarrow> ComputeGroupStatus list \<Rightarrow> ComputeGroupStatus list \<Rightarrow>
     call list \<Rightarrow> ComputeGroupStatus list \<times> call list"
where
  "clearLoop e ddc [] eCGs log = (eCGs, log)"
| "clearLoop e ddc (cgs # rest) eCGs log =
     (let r1 = DeleteStatefulset e log (Namespace ddc) (StatefulsetName cgs);
          log1 = log @ [Call_DeleteStatefulset (Namespace ddc) (StatefulsetName cgs) r1] @
                   (case r1 of
                      Some err \<Rightarrow> [Call_Event EventWarning CGStatefulsetDeleteFailed (ErrorString err)]
                    | None \<Rightarrow> []);
          r2 = DeleteService e log1 (Namespace ddc) (ServiceName cgs);
          log2 = log1 @ [Call_DeleteService (Namespace ddc) (ServiceName cgs) r2] @
                   (case r2 of
                      Some err \<Rightarrow> [Call_Event EventWarning CGServiceDeleteFailed (ErrorString err)]
                    | None \<Rightarrow> []);
          cleared = (r1 = None \<and> r2 = None)
      in if \<not> cleared then clearLoop e ddc rest (eCGs @ [cgs]) log2
         else (let cgName = ReplaceAll (ComputeGroupStatus.UniqueId cgs) CHR ''_'' CHR ''-'';
                   cgKeepAmount = 0
               in case scaledOutBENodesBySQL e ddc cgName cgKeepAmount log2 of
                    (Some err, log3) \<Rightarrow>
                      clearLoop e ddc rest eCGs
                        (log3 @ [Call_Event EventWarning CGSqlExecFailed
                                   (''computeGroupSync dropCGBySQLClient failed: '' @ ErrorString err)])
                  | (None, log3) \<Rightarrow> clearLoop e ddc rest eCGs log3))"

text \<open>
  The third and the fourth loop: \<^verbatim>\<open>ClearStatefulsetUnusedPVCs\<close> for every status of a
  list; its error is logged and dropped, a panic ends everything.
\<close>

fun clearPVCsLoop ::
  "env \<Rightarrow> DorisDisaggregatedCluster \<Rightarrow> ComputeGroupStatus list \<Rightarrow> call list \<Rightarrow> panic + call list"
where
  "clearPVCsLoop e ddc [] log = Inr log"
| "clearPVCsLoop e ddc (cgs # rest) log =
     (case ClearStatefulsetUnusedPVCs e ddc cgs log of
        Inl p \<Rightarrow> Inl p
      | Inr (err, log1) \<Rightarrow> clearPVCsLoop e ddc rest log1)"

definition ClearResources ::
  "env \<Rightarrow> DorisDisaggregatedCluster \<Rightarrow> call list \<Rightarrow>
     panic + ((bool \<times> error option) \<times> DorisDisaggregatedCluster \<times> call list)"
where
  "ClearResources e ddc log =
     (case splitCGs (Status_ComputeGroupStatuses ddc) (Spec_ComputeGroups ddc) [] [] of
        (clearCGs, eCGs0) \<Rightarrow>
          (case clearLoop e ddc clearCGs eCGs0 log of
             (eCGs, log1) \<Rightarrow>
               (case clearPVCsLoop e ddc eCGs log1 of
                  Inl p \<Rightarrow> Inl p
                | Inr log2 \<Rightarrow>
                    (case clearPVCsLoop e ddc clearCGs log2 of
                       Inl p \<Rightarrow> Inl p
                     | Inr log3 \<Rightarrow>
                         Inr ((True, None), ddc\<lparr>Status_ComputeGroupStatuses := eCGs\<rparr>, log3)))))"

section \<open>Reading the call log\<close>

text \<open>The removal calls of a log, each with the nodes it carries.\<close>

fun DropBE_calls :: "call list \<Rightarrow> Backend list list" where
  "DropBE_calls [] = []"
| "DropBE_calls (Call_DropBE nodes r # cs) = nodes # DropBE_calls cs"
| "DropBE_calls (c # cs) = DropBE_calls cs"


text \<open>Whether the ordinal of every node of a list can be read.\<close>

definition ordinalsResolved :: "Backend list \<Rightarrow> bool" where
  "ordinalsResolved bs = list_all (\<lambda>b. isl (podNumOf (Host b)) = False) bs"

text \<open>The nodes of a list whose ordinal is at least \<open>R\<close>, in the order of the list.\<close>

definition nodesFrom :: "int \<Rightarrow> Backend list \<Rightarrow> Backend list" where
  "nodesFrom R bs = filter (\<lambda>b. case podNumOf (Host b) of Inl err \<Rightarrow> False | Inr n \<Rightarrow> n \<ge> R) bs"

text \<open>
  The two reads that open \<^verbatim>\<open>scaledOutBENodesBySQL\<close>, as they stand in the log, and
  the connection settings the function computes from them.
\<close>

definition scaledOutReads :: "env \<Rightarrow> DorisDisaggregatedCluster \<Rightarrow> call list" where
  "scaledOutReads e cluster =
     [Call_GetSecret (Namespace cluster) (DSpec_AuthSecret cluster),
      Call_GetConfigValuesFromConfigMaps (Namespace cluster) (FE_RESOLVEKEY e)
        (DSpec_FeSpec_ConfigMaps cluster)]"

definition scaledOutDBConf :: "env \<Rightarrow> DorisDisaggregatedCluster \<Rightarrow> call list \<Rightarrow> DBConfig" where
  "scaledOutDBConf e cluster log =
     \<lparr>User = fst (GetDorisLoginInformation e
                    (GetSecret e log (Namespace cluster) (DSpec_AuthSecret cluster))),
      Password = snd (GetDorisLoginInformation e
                    (GetSecret e log (Namespace cluster) (DSpec_AuthSecret cluster))),
      DBHost = GetFEVIPAddresss e cluster,
      Port = Itoa (sint (GetPort e
               (GetConfigValuesFromConfigMaps e
                  (log @ [Call_GetSecret (Namespace cluster) (DSpec_AuthSecret cluster)])
                  (Namespace cluster) (FE_RESOLVEKEY e) (DSpec_FeSpec_ConfigMaps cluster))
               (QUERY_PORT e))),
      Database = ''mysql''\<rparr>"

text \<open>
  The two reads that open \<^verbatim>\<open>dropObserverBySqlClient\<close>, as they stand in the log, the
  configuration and the connection settings the function computes from them.
\<close>

definition dropObserverReads :: "DorisCluster \<Rightarrow> call list" where
  "dropObserverReads targetDCR =
     [Call_GetSecret (Namespace targetDCR) (Spec_AuthSecret targetDCR),
      Call_GetConfig (Spec_FeSpec_ConfigMapInfo targetDCR) (Namespace targetDCR) Component_FE]"

definition dropObserverMaps :: "env \<Rightarrow> DorisCluster \<Rightarrow> call list \<Rightarrow> ConfMap" where
  "dropObserverMaps e targetDCR log =
     GetConfig e (log @ [Call_GetSecret (Namespace targetDCR) (Spec_AuthSecret targetDCR)])
       (Spec_FeSpec_ConfigMapInfo targetDCR) (Namespace targetDCR) Component_FE"

definition dropObserverDBConf :: "env \<Rightarrow> DorisCluster \<Rightarrow> call list \<Rightarrow> DBConfig" where
  "dropObserverDBConf e targetDCR log =
     \<lparr>User = fst (GetClusterSecret e targetDCR
                    (GetSecret e log (Namespace targetDCR) (Spec_AuthSecret targetDCR))),
      Password = snd (GetClusterSecret e targetDCR
                    (GetSecret e log (Namespace targetDCR) (Spec_AuthSecret targetDCR))),
      DBHost = GenerateExternalServiceName e targetDCR Component_FE @ ''.'' @ Namespace targetDCR,
      Port = Itoa (sint (GetPort e (dropObserverMaps e targetDCR log) (QUERY_PORT e))),
      Database = ''mysql''\<rparr>"

text \<open>Re-initialization of the status of a group \<open>n\<close> times in a row.\<close>

fun initialCGStatusTimes ::
  "nat \<Rightarrow> env \<Rightarrow> DorisDisaggregatedCluster \<Rightarrow> ComputeGroup \<Rightarrow> panic + DorisDisaggregatedCluster"
where
  "initialCGStatusTimes 0 e ddc cg = Inr ddc"
| "initialCGStatusTimes (Suc n) e ddc cg =
     (case initialCGStatus e ddc cg of
        Inl p \<Rightarrow> Inl p
      | Inr ddc' \<Rightarrow> initialCGStatusTimes n e ddc' cg)"

text \<open>The phases that the loop of \<^verbatim>\<open>initialCGStatus\<close> carries over.\<close>

definition carriedOver :: "Phase \<Rightarrow> bool" where
  "carriedOver p =
     (p = ScaleDownFailed \<or> p = Suspended \<or> p = SuspendFailed \<or> p = ResumeFailed \<or> p = Scaling)"

text \<open>The calls of a log that go to the SQL client of the master frontend.\<close>

fun isSqlCall :: "call \<Rightarrow> bool" where
  "isSqlCall (Call_NewDorisMasterSqlDB conf r) = True"
| "isSqlCall Call_Close = True"
| "isSqlCall (Call_GetObservers r) = True"
| "isSqlCall (Call_GetBackendsByCGName n r) = True"
| "isSqlCall (Call_DropObserver fes r) = True"
| "isSqlCall (Call_DropBE bes r) = True"
| "isSqlCall c = False"

definition sqlCalls :: "call list \<Rightarrow> call list" where
  "sqlCalls log = filter isSqlCall log"

text \<open>The removal calls for observers of a log, each with the frontends it carries.\<close>

fun DropObserver_calls :: "call list \<Rightarrow> Frontend list list" where
  "DropObserver_calls [] = []"
| "DropObserver_calls (Call_DropObserver fes r # cs) = fes # DropObserver_calls cs"
| "DropObserver_calls (c # cs) = DropObserver_calls cs"

text \<open>The names of the volume claims that a log deletes or tries to delete.\<close>

fun DeletePVC_calls :: "call list \<Rightarrow> string list" where
  "DeletePVC_calls [] = []"
| "DeletePVC_calls (Call_DeletePVC ns n labels r # cs) = n # DeletePVC_calls cs"
| "DeletePVC_calls (c # cs) = DeletePVC_calls cs"

text \<open>
  An association list that is a map from names to volume claims: no name twice, and
  every claim under its own name. \<^verbatim>\<open>pvcMap\<close> is one.
\<close>

definition keyed :: "(string \<times> PersistentVolumeClaim) list \<Rightarrow> bool" where
  "keyed m = (distinct (map fst m) \<and> (\<forall>(n, claim)\<in>set m. Name claim = n))"

text \<open>Whether the group of a status is a compute group of the specification.\<close>

definition inSpec :: "DorisDisaggregatedCluster \<Rightarrow> ComputeGroupStatus \<Rightarrow> bool" where
  "inSpec ddc cgs =
     list_ex (\<lambda>cg. ComputeGroupStatus.UniqueId cgs = ComputeGroup.UniqueId cg) (Spec_ComputeGroups ddc)"

text \<open>Whether every compute group of the specification has its replica count set.\<close>

definition replicasSet :: "DorisDisaggregatedCluster \<Rightarrow> bool" where
  "replicasSet ddc = list_all (\<lambda>cg. ComputeGroup.Replicas cg \<noteq> None) (Spec_ComputeGroups ddc)"

text \<open>
  What the platform and the SQL client answer for the resources of a status, whenever
  they are asked: the deletions of its StatefulSet and its Service always succeed, one
  of the two always fails, the drain of its group always fails.
\<close>

definition alwaysDeleted :: "env \<Rightarrow> DorisDisaggregatedCluster \<Rightarrow> ComputeGroupStatus \<Rightarrow> bool" where
  "alwaysDeleted e ddc s =
     ((\<forall>h. DeleteStatefulset e h (Namespace ddc) (StatefulsetName s) = None) \<and>
      (\<forall>h. DeleteService e h (Namespace ddc) (ServiceName s) = None))"

definition neverDeleted :: "env \<Rightarrow> DorisDisaggregatedCluster \<Rightarrow> ComputeGroupStatus \<Rightarrow> bool" where
  "neverDeleted e ddc s =
     ((\<forall>h. DeleteStatefulset e h (Namespace ddc) (StatefulsetName s) \<noteq> None) \<or>
      (\<forall>h. DeleteService e h (Namespace ddc) (ServiceName s) \<noteq> None))"

definition drainAlwaysFails :: "env \<Rightarrow> DorisDisaggregatedCluster \<Rightarrow> ComputeGroupStatus \<Rightarrow> bool" where
  "drainAlwaysFails e ddc s =
     (\<forall>h. fst (scaledOutBENodesBySQL e ddc
                 (ReplaceAll (ComputeGroupStatus.UniqueId s) CHR ''_'' CHR ''-'') 0 h) \<noteq> None)"

text \<open>The warning events of a log that report a failed drain during a teardown.\<close>

fun dropFailedEvents :: "call list \<Rightarrow> string list" where
  "dropFailedEvents [] = []"
| "dropFailedEvents (Call_Event t reason msg # cs) =
     (if t = EventWarning \<and> reason = CGSqlExecFailed then msg # dropFailedEvents cs
      else dropFailedEvents cs)"
| "dropFailedEvents (c # cs) = dropFailedEvents cs"

section \<open>A concrete cluster\<close>

text \<open>
  Collaborators that always succeed and find nothing, for the concrete runs below; a run
  that needs a failure or a node list updates the field in question.
\<close>

definition env0 :: env where
  "env0 =
     \<lparr>GetSecret = (\<lambda>log ns n. None),
      GetConfig = (\<lambda>log info ns t. []),
      GetConfigValuesFromConfigMaps = (\<lambda>log ns key cms. []),
      GetPods = (\<lambda>log ns labels. Inr []),
      K8sclient_Get_StatefulSet = (\<lambda>log ns n. Inr \<lparr>Namespace = ns, Name = n, Spec_Replicas = Some 5\<rparr>),
      K8sclient_List_PVC = (\<lambda>log ns labels. Inr []),
      CreateClientObject = (\<lambda>log st. None),
      ApplyStatefulSet = (\<lambda>log st. None),
      DeleteStatefulset = (\<lambda>log ns n. None),
      DeleteService = (\<lambda>log ns n. None),
      DeletePVC = (\<lambda>log ns n labels. None),
      NewDorisMasterSqlDB = (\<lambda>log conf. None),
      GetObservers = (\<lambda>log. Inr []),
      GetBackendsByCGName = (\<lambda>log cgName. Inr []),
      DropObserver = (\<lambda>log fes. None),
      DropBE = (\<lambda>log bes. None),
      IsNotFound = (\<lambda>err. err = Err ''not found''),
      BuildSeqNumberToFrontendMap = (\<lambda>fes podMap n. Inr []),
      GetDorisLoginInformation = (\<lambda>secret. (''root'', [])),
      GetClusterSecret = (\<lambda>dcr secret. (''root'', [])),
      GenerateExternalServiceName = (\<lambda>dcr t. Name dcr @ ''-fe-service''),
      GenerateComponentStatefulSetName = (\<lambda>dcr t. Name dcr @ ''-fe''),
      GeneratePodTemplateName = (\<lambda>dcr t. Name dcr @ ''-fe''),
      GetPodLabels = (\<lambda>dcr t. []),
      GetElectionNumber = (\<lambda>dcr. 3),
      GetPort = (\<lambda>conf key. 9030),
      GetStartMode = (\<lambda>conf. ''FQDN''),
      QUERY_PORT = ''query_port'',
      START_MODEL_FQDN = ''FQDN'',
      FE_RESOLVEKEY = ''fe.conf'',
      BE_RESOLVEKEY = ''be.conf'',
      GetFEVIPAddresss = (\<lambda>ddc. Name ddc @ ''-fe.'' @ Namespace ddc),
      GetCGName = (\<lambda>ddc cg. ReplaceAll (ComputeGroup.UniqueId cg) CHR ''_'' CHR ''-''),
      GetCGStatefulsetName = (\<lambda>ddc cg. Name ddc @ ''-'' @ ComputeGroup.UniqueId cg),
      GetCGServiceName = (\<lambda>ddc cg. Name ddc @ ''-'' @ ComputeGroup.UniqueId cg),
      newCGPodsSelector = (\<lambda>n uid. [(''cluster'', n), (''group'', uid)]),
      getCacheMaxSizeAndPaths = (\<lambda>conf. [''/opt/storage'']),
      BuildPVCName = (\<lambda>stsName ordinal volumeName. volumeName @ ''-'' @ stsName @ ''-'' @ ordinal),
      LogStoreName = ''be-log'',
      StorageStorePreName = ''be-storage'',
      MergeError = (\<lambda>merged err. Some (case merged of None \<Rightarrow> err
                                     | Some m \<Rightarrow> Err (ErrorString m @ ErrorString err)))\<rparr>"

definition be :: "string \<Rightarrow> Backend" where
  "be h = \<lparr>BackendID = h, Host = h, HeartbeatPort = 9050\<rparr>"

definition fe :: "string \<Rightarrow> Frontend" where
  "fe h = \<lparr>FrontendName = h, FrontendHost = h, EditLogPort = 9010\<rparr>"

definition ddc0 :: DorisDisaggregatedCluster where
  "ddc0 = \<lparr>Namespace = ''ns'', Name = ''d'', DSpec_AuthSecret = [], DSpec_FeSpec_ConfigMaps = [],
            Spec_ComputeGroups = [], Status_ComputeGroupStatuses = []\<rparr>"

definition dcr0 :: DorisCluster where
  "dcr0 = \<lparr>Namespace = ''ns'', Name = ''d'', Spec_AuthSecret = [], Spec_FeSpec_Replicas = Some 3,
            Spec_FeSpec_ConfigMapInfo = []\<rparr>"

definition cg0 :: "string \<Rightarrow> int32 \<Rightarrow> ComputeGroup" where
  "cg0 uid r = \<lparr>ComputeGroup.UniqueId = uid, ComputeGroup.Replicas = Some r,
                CommonSpec_ConfigMaps = []\<rparr>"

definition status0 :: "string \<Rightarrow> Phase \<Rightarrow> ComputeGroupStatus" where
  "status0 uid p = \<lparr>Phase = p, ComputeGroupStatus.UniqueId = uid, StatefulsetName = ''d-'' @ uid,
                    ServiceName = ''d-'' @ uid, ComputeGroupStatus.Replicas = 3,
                    AvailableReplicas = 3, SuspendReplicas = 0\<rparr>"

text \<open>The scenario of section 8: five backends of a group, ordinals 0 to 4.\<close>

definition five :: "Backend list" where
  "five = [be ''d-cg1-0.svc'', be ''d-cg1-1.svc'', be ''d-cg1-2.svc'', be ''d-cg1-3.svc'',
           be ''d-cg1-4.svc'']"

definition envFive :: env where
  "envFive = env0\<lparr>GetBackendsByCGName := (\<lambda>log cgName. Inr five)\<rparr>"

text \<open>Two groups with a status each; the second is in the phase given.\<close>

definition ddcTwo :: "Phase \<Rightarrow> DorisDisaggregatedCluster" where
  "ddcTwo p =
     ddc0\<lparr>Spec_ComputeGroups := [cg0 ''cg0'' 3, cg0 ''cg1'' 3],
          Status_ComputeGroupStatuses := [status0 ''cg0'' Ready, status0 ''cg1'' p]\<rparr>"

text \<open>
  A drain that is tried again: the StatefulSet at hand already has the three replicas
  asked for, and the group, whose status is in \<open>ScaleDownFailed\<close>, still has five
  backends.
\<close>

definition st3 :: StatefulSet where
  "st3 = \<lparr>Namespace = ''ns'', Name = ''d-cg1'', Spec_Replicas = Some 3\<rparr>"

definition envRetry :: env where
  "envRetry = envFive\<lparr>K8sclient_Get_StatefulSet := (\<lambda>log ns n. Inr st3)\<rparr>"

text \<open>
  Four observers, a desired count of three and an election number of three; an
  environment whose topology resolution fails by host name, and one that addresses the
  pods by IP and cannot list them.
\<close>

definition four :: "Frontend list" where
  "four = [fe ''d-fe-0.svc'', fe ''d-fe-1.svc'', fe ''d-fe-2.svc'', fe ''d-fe-x.svc'']"

definition envFour :: env where
  "envFour = env0\<lparr>GetObservers := (\<lambda>log. Inr four),
                  BuildSeqNumberToFrontendMap :=
                    (\<lambda>fes podMap n. Inr [(0, fe ''d-fe-0.svc''), (1, fe ''d-fe-1.svc''),
                                         (2, fe ''d-fe-2.svc''), (3, fe ''d-fe-x.svc'')])\<rparr>"

definition envUnresolved :: env where
  "envUnresolved =
     envFour\<lparr>BuildSeqNumberToFrontendMap := (\<lambda>fes podMap n. Inl (ErrSyntax ''x''))\<rparr>"

definition envNoPods :: env where
  "envNoPods = envFour\<lparr>GetStartMode := (\<lambda>conf. ''IP''),
                       GetPods := (\<lambda>log ns labels. Inl (Err ''pods: forbidden''))\<rparr>"

text \<open>
  The volume claims of the group \<^verbatim>\<open>cg1\<close>: a log volume and one storage volume for
  each of the ordinals 0 to 3, while three replicas are asked for.
\<close>

definition pvc :: "string \<Rightarrow> PersistentVolumeClaim" where
  "pvc n = \<lparr>Namespace = ''ns'', Name = n, PVCLabels = [(''cluster'', ''d''), (''group'', ''cg1'')]\<rparr>"

definition envPVC :: env where
  "envPVC = env0\<lparr>K8sclient_List_PVC := (\<lambda>log ns labels.
       Inr [pvc ''be-log-d-cg1-0'', pvc ''be-storage0-d-cg1-0'',
            pvc ''be-log-d-cg1-1'', pvc ''be-storage0-d-cg1-1'',
            pvc ''be-log-d-cg1-2'', pvc ''be-storage0-d-cg1-2'',
            pvc ''be-log-d-cg1-3'', pvc ''be-storage0-d-cg1-3''])\<rparr>"

text \<open>
  A group \<^verbatim>\<open>old_cg\<close> that has left the specification while its status is still
  there; an environment in which its Service cannot be deleted, and one in which no
  connection to the master frontend can be opened.
\<close>

definition ddcGone :: DorisDisaggregatedCluster where
  "ddcGone =
     ddc0\<lparr>Spec_ComputeGroups := [cg0 ''cg0'' 3],
          Status_ComputeGroupStatuses := [status0 ''cg0'' Ready, status0 ''old_cg'' Ready]\<rparr>"

definition envServiceStays :: env where
  "envServiceStays = env0\<lparr>DeleteService := (\<lambda>log ns n. Some (Err ''service: forbidden''))\<rparr>"

definition envNoMaster :: env where
  "envNoMaster = env0\<lparr>NewDorisMasterSqlDB := (\<lambda>log conf. Some (Err ''no master''))\<rparr>"

section \<open>Properties\<close>

lemma Split_not_Nil: "Split s sep \<noteq> []"
  by (induction s) (auto split: list.splits)

subsection \<open>Host names and ordinals\<close>

lemma Split_no_sep: "sep \<notin> set a \<Longrightarrow> Split a sep = [a]"
  by (induction a) auto

lemma Split_first: "sep \<notin> set a \<Longrightarrow> Split (a @ sep # b) sep = a # Split b sep"
  by (induction a) auto

lemma length_Split: "length (Split s sep) = Suc (length (filter (\<lambda>c. c = sep) s))"
  by (induction s) (auto split: list.splits)

lemma Split_last: "last (Split (a @ sep # b) sep) = last (Split b sep)"
proof (induction a)
  case Nil
  then show ?case by (simp add: Split_not_Nil)
next
  case (Cons c a)
  have "length (Split (a @ sep # b) sep) \<ge> 2"
    by (simp add: length_Split)
  then obtain x y ys where "Split (a @ sep # b) sep = x # y # ys"
    by (cases "Split (a @ sep # b) sep"; cases "tl (Split (a @ sep # b) sep)") auto
  with Cons show ?case by (auto simp: Split_not_Nil)
qed

text \<open>
  For a host of the form \<^verbatim>\<open>name-segment.domain\<close> the ordinal is what \<^verbatim>\<open>Atoi\<close> reads
  from the segment after the last dash of the first label.
\<close>

lemma podNumOf_trailing:
  assumes "CHR ''.'' \<notin> set name" "CHR ''.'' \<notin> set seg" "CHR ''-'' \<notin> set seg"
  shows "podNumOf (name @ ''-'' @ seg @ ''.'' @ domain) = Atoi seg"
proof -
  have "Split (name @ ''-'' @ seg @ ''.'' @ domain) CHR ''.'' =
        (name @ ''-'' @ seg) # Split domain CHR ''.''"
    using assms Split_first [of "CHR ''.''" "name @ ''-'' @ seg" domain] by simp
  moreover have "last (Split (name @ ''-'' @ seg) CHR ''-'') = seg"
    using assms Split_last [of name "CHR ''-''" seg] by (simp add: Split_no_sep)
  ultimately show ?thesis by (simp add: podNumOf_def)
qed

subsection \<open>The drain of a compute group\<close>

lemma dropNodesLoop_resolved:
  "ordinalsResolved bs \<Longrightarrow> dropNodesLoop bs R acc = Inr (acc @ nodesFrom (sint R) bs)"
  by (induction bs arbitrary: acc)
     (auto simp: ordinalsResolved_def nodesFrom_def split: sum.splits)

lemma dropNodesLoop_unresolved:
  "\<not> ordinalsResolved bs \<Longrightarrow> \<exists>err. dropNodesLoop bs R acc = Inl err"
  by (induction bs arbitrary: acc)
     (auto simp: ordinalsResolved_def split: sum.splits)

text \<open>\<^verbatim>\<open>scaledOutBENodesBySQL\<close> with its reads and its settings named.\<close>

lemma scaledOutBENodesBySQL_unfold:
  "scaledOutBENodesBySQL e cluster cgName R log =
     (case NewDorisMasterSqlDB e (log @ scaledOutReads e cluster) (scaledOutDBConf e cluster log) of
        Some err \<Rightarrow>
          (Some err, log @ scaledOutReads e cluster @
             [Call_NewDorisMasterSqlDB (scaledOutDBConf e cluster log) (Some err)])
      | None \<Rightarrow>
          (case GetBackendsByCGName e
                  (log @ scaledOutReads e cluster @
                     [Call_NewDorisMasterSqlDB (scaledOutDBConf e cluster log) None]) cgName of
             Inl err \<Rightarrow>
               (Some err, log @ scaledOutReads e cluster @
                  [Call_NewDorisMasterSqlDB (scaledOutDBConf e cluster log) None,
                   Call_GetBackendsByCGName cgName (Inl err), Call_Close])
           | Inr bs \<Rightarrow>
               (case dropNodesLoop bs R [] of
                  Inl err \<Rightarrow>
                    (Some err, log @ scaledOutReads e cluster @
                       [Call_NewDorisMasterSqlDB (scaledOutDBConf e cluster log) None,
                        Call_GetBackendsByCGName cgName (Inr bs), Call_Close])
                | Inr dropNodes \<Rightarrow>
                    if dropNodes = []
                    then (None, log @ scaledOutReads e cluster @
                            [Call_NewDorisMasterSqlDB (scaledOutDBConf e cluster log) None,
                             Call_GetBackendsByCGName cgName (Inr bs), Call_Close])
                    else (let r = DropBE e (log @ scaledOutReads e cluster @
                                     [Call_NewDorisMasterSqlDB (scaledOutDBConf e cluster log) None,
                                      Call_GetBackendsByCGName cgName (Inr bs)]) dropNodes
                          in (r, log @ scaledOutReads e cluster @
                                [Call_NewDorisMasterSqlDB (scaledOutDBConf e cluster log) None,
                                 Call_GetBackendsByCGName cgName (Inr bs),
                                 Call_DropBE dropNodes r, Call_Close])))))"
  by (simp add: scaledOutBENodesBySQL_def Let_def split_beta scaledOutReads_def
      scaledOutDBConf_def split: option.split sum.split)

text \<open>The function only adds to the log.\<close>

lemma scaledOutBENodesBySQL_log:
  "\<exists>new. snd (scaledOutBENodesBySQL e cluster cgName R log) = log @ new"
  by (simp add: scaledOutBENodesBySQL_unfold Let_def split: option.split sum.split)


text \<open>
  The scenario of section 8 of the specification: five backends with the ordinals 0 to
  4 and a keep amount of 3. One removal call, with the backends of ordinal 3 and 4.
\<close>

lemma scaledOutBENodesBySQL_five_keep_three:
  "DropBE_calls (snd (scaledOutBENodesBySQL envFive ddc0 ''cg1'' 3 [])) =
     [[be ''d-cg1-3.svc'', be ''d-cg1-4.svc'']]"
  by (simp add: scaledOutBENodesBySQL_def envFive_def env0_def five_def ddc0_def be_def
      podNumOf_def Atoi_def isDigit_def digitVal_def)

subsection \<open>Re-initialization of a status\<close>

lemma findCGStatus_Some:
  "findCGStatus cgss uid = Some i \<Longrightarrow>
     i < length cgss \<and> ComputeGroupStatus.UniqueId (cgss ! i) = uid"
  by (induction cgss arbitrary: i) (auto split: if_splits)

lemma initialCGStatusLoop_found:
  assumes "findCGStatus cgss uid = Some i" and "ComputeGroupStatus.UniqueId d = uid"
  shows "\<exists>cgss'. initialCGStatusLoop cgss uid d = Some cgss' \<and>
           findCGStatus cgss' uid = Some i \<and>
           Phase (cgss' ! i) = (if carriedOver (Phase (cgss ! i)) then Phase (cgss ! i) else Phase d)"
  using assms
  by (induction cgss arbitrary: i) (auto simp: carriedOver_def split: if_splits)

text \<open>
  The phase of the first status of a group after \<^verbatim>\<open>initialCGStatus\<close>: the phase it
  had when that is one of the five carried over, and \<open>Reconciling\<close> otherwise.
\<close>

lemma initialCGStatus_phase:
  assumes "ComputeGroup.Replicas cg = Some r"
    and "findCGStatus (Status_ComputeGroupStatuses ddc) (ComputeGroup.UniqueId cg) = Some i"
  shows "\<exists>ddc'. initialCGStatus e ddc cg = Inr ddc' \<and>
           findCGStatus (Status_ComputeGroupStatuses ddc') (ComputeGroup.UniqueId cg) = Some i \<and>
           Phase (Status_ComputeGroupStatuses ddc' ! i) =
             (if carriedOver (Phase (Status_ComputeGroupStatuses ddc ! i))
              then Phase (Status_ComputeGroupStatuses ddc ! i) else Reconciling)"
proof -
  let ?d = "\<lparr>Phase = Reconciling, ComputeGroupStatus.UniqueId = ComputeGroup.UniqueId cg,
             StatefulsetName = GetCGStatefulsetName e ddc cg,
             ServiceName = GetCGServiceName e ddc cg, ComputeGroupStatus.Replicas = r,
             AvailableReplicas = 0, SuspendReplicas = 0\<rparr>"
  from initialCGStatusLoop_found [OF assms(2), of ?d]
  obtain cgss' where
    "initialCGStatusLoop (Status_ComputeGroupStatuses ddc) (ComputeGroup.UniqueId cg) ?d = Some cgss'"
    and "findCGStatus cgss' (ComputeGroup.UniqueId cg) = Some i"
    and "Phase (cgss' ! i) = (if carriedOver (Phase (Status_ComputeGroupStatuses ddc ! i))
              then Phase (Status_ComputeGroupStatuses ddc ! i) else Reconciling)"
    by auto
  then show ?thesis
    using assms(1) by (simp add: initialCGStatus_def Let_def)
qed

text \<open>
  Claim C5. Let the status that \<^verbatim>\<open>initialCGStatus\<close> finds for a compute group (the
  first one with its identifier) be in phase \<open>ScaleDownFailed\<close>, \<open>Suspended\<close>,
  \<open>SuspendFailed\<close> or \<open>ResumeFailed\<close>. Then re-initializing the status once, twice or
  any number of times in a row returns normally and leaves it, at the same place of the
  list, in that phase and not in \<open>Reconciling\<close>. The replica count of the group must be
  set, as \<^verbatim>\<open>computeGroupSync\<close> makes sure before the call; the function dereferences
  it.
\<close>

theorem initialCGStatus_sticky:
  assumes "ComputeGroup.Replicas cg = Some r"
    and "findCGStatus (Status_ComputeGroupStatuses ddc) (ComputeGroup.UniqueId cg) = Some i"
    and "Phase (Status_ComputeGroupStatuses ddc ! i) = p"
    and "p = ScaleDownFailed \<or> p = Suspended \<or> p = SuspendFailed \<or> p = ResumeFailed"
  shows "\<exists>ddc'. initialCGStatusTimes (Suc n) e ddc cg = Inr ddc' \<and>
           findCGStatus (Status_ComputeGroupStatuses ddc') (ComputeGroup.UniqueId cg) = Some i \<and>
           Phase (Status_ComputeGroupStatuses ddc' ! i) = p"
  using assms(2,3)
proof (induction n arbitrary: ddc)
  case 0
  with assms(1,4) initialCGStatus_phase [of cg r ddc i e] show ?case
    by (auto simp: carriedOver_def)
next
  case (Suc n)
  from assms(1,4) Suc.prems initialCGStatus_phase [of cg r ddc i e]
  obtain ddc1 where 1: "initialCGStatus e ddc cg = Inr ddc1"
    and 2: "findCGStatus (Status_ComputeGroupStatuses ddc1) (ComputeGroup.UniqueId cg) = Some i"
    and 3: "Phase (Status_ComputeGroupStatuses ddc1 ! i) = p"
    by (auto simp: carriedOver_def)
  from Suc.IH [OF 2 3] obtain ddc' where
    "initialCGStatusTimes (Suc n) e ddc1 cg = Inr ddc'"
    "findCGStatus (Status_ComputeGroupStatuses ddc') (ComputeGroup.UniqueId cg) = Some i"
    "Phase (Status_ComputeGroupStatuses ddc' ! i) = p"
    by blast
  with 1 show ?case by simp
qed

text \<open>A status in \<open>ScaleDownFailed\<close>, re-initialized twice in a row.\<close>

theorem initialCGStatus_sticky_witness:
  "ComputeGroup.Replicas (cg0 ''cg1'' 3) = Some 3 \<and>
   findCGStatus (Status_ComputeGroupStatuses (ddcTwo ScaleDownFailed))
     (ComputeGroup.UniqueId (cg0 ''cg1'' 3)) = Some 1 \<and>
   Phase (Status_ComputeGroupStatuses (ddcTwo ScaleDownFailed) ! 1) = ScaleDownFailed \<and>
   (\<exists>ddc'. initialCGStatusTimes (Suc 1) env0 (ddcTwo ScaleDownFailed) (cg0 ''cg1'' 3) = Inr ddc' \<and>
      findCGStatus (Status_ComputeGroupStatuses ddc') (ComputeGroup.UniqueId (cg0 ''cg1'' 3)) = Some 1 \<and>
      Phase (Status_ComputeGroupStatuses ddc' ! 1) = ScaleDownFailed)"
proof -
  have h1: "ComputeGroup.Replicas (cg0 ''cg1'' 3) = Some 3"
    by (simp add: cg0_def)
  have h2: "findCGStatus (Status_ComputeGroupStatuses (ddcTwo ScaleDownFailed))
              (ComputeGroup.UniqueId (cg0 ''cg1'' 3)) = Some 1"
    by (simp add: ddcTwo_def ddc0_def cg0_def status0_def)
  have h3: "Phase (Status_ComputeGroupStatuses (ddcTwo ScaleDownFailed) ! 1) = ScaleDownFailed"
    by (simp add: ddcTwo_def ddc0_def status0_def)
  show ?thesis
    using h1 h2 h3 initialCGStatus_sticky [OF h1 h2 h3, of 1 env0] by simp
qed

text \<open>
  Claim C9. A status in phase \<open>Scaling\<close> is carried over too: when the status that
  \<^verbatim>\<open>initialCGStatus\<close> finds for the group is in \<open>Scaling\<close>, the re-initialized status is
  in \<open>Scaling\<close> and not in \<open>Reconciling\<close>.
\<close>

theorem initialCGStatus_keeps_Scaling:
  assumes "ComputeGroup.Replicas cg = Some r"
    and "findCGStatus (Status_ComputeGroupStatuses ddc) (ComputeGroup.UniqueId cg) = Some i"
    and "Phase (Status_ComputeGroupStatuses ddc ! i) = Scaling"
  shows "\<exists>ddc'. initialCGStatus e ddc cg = Inr ddc' \<and>
           findCGStatus (Status_ComputeGroupStatuses ddc') (ComputeGroup.UniqueId cg) = Some i \<and>
           Phase (Status_ComputeGroupStatuses ddc' ! i) = Scaling"
  using initialCGStatus_phase [OF assms(1,2), of e] assms(3) by (simp add: carriedOver_def)

theorem initialCGStatus_keeps_Scaling_witness:
  "ComputeGroup.Replicas (cg0 ''cg1'' 3) = Some 3 \<and>
   findCGStatus (Status_ComputeGroupStatuses (ddcTwo Scaling))
     (ComputeGroup.UniqueId (cg0 ''cg1'' 3)) = Some 1 \<and>
   Phase (Status_ComputeGroupStatuses (ddcTwo Scaling) ! 1) = Scaling \<and>
   (\<exists>ddc'. initialCGStatus env0 (ddcTwo Scaling) (cg0 ''cg1'' 3) = Inr ddc' \<and>
      findCGStatus (Status_ComputeGroupStatuses ddc') (ComputeGroup.UniqueId (cg0 ''cg1'' 3)) = Some 1 \<and>
      Phase (Status_ComputeGroupStatuses ddc' ! 1) = Scaling)"
proof -
  have h1: "ComputeGroup.Replicas (cg0 ''cg1'' 3) = Some 3"
    by (simp add: cg0_def)
  have h2: "findCGStatus (Status_ComputeGroupStatuses (ddcTwo Scaling))
              (ComputeGroup.UniqueId (cg0 ''cg1'' 3)) = Some 1"
    by (simp add: ddcTwo_def ddc0_def cg0_def status0_def)
  have h3: "Phase (Status_ComputeGroupStatuses (ddcTwo Scaling) ! 1) = Scaling"
    by (simp add: ddcTwo_def ddc0_def status0_def)
  show ?thesis
    using h1 h2 h3 initialCGStatus_keeps_Scaling [OF h1 h2 h3, of env0] by simp
qed

text \<open>Any other phase is reset: a status in \<open>Ready\<close> comes back in \<open>Reconciling\<close>.\<close>

lemma initialCGStatus_resets_Ready:
  "map Phase (case initialCGStatus env0 (ddcTwo Ready) (cg0 ''cg1'' 3) of
                Inl p \<Rightarrow> [] | Inr ddc' \<Rightarrow> Status_ComputeGroupStatuses ddc') =
     [Ready, Reconciling]"
  by (simp add: initialCGStatus_def ddcTwo_def ddc0_def cg0_def status0_def env0_def)

subsection \<open>Concrete runs\<close>

text \<open>The definitions of the Go library functions, which a concrete run unfolds.\<close>

lemmas go_defs = podNumOf_def Atoi_def isDigit_def digitVal_def ReplaceAll_def HasPrefix_def Itoa_def

subsection \<open>Scale-down in \<^verbatim>\<open>reconcileStatefulset\<close>\<close>

lemma setPhase_at:
  "i < length (Status_ComputeGroupStatuses cluster) \<Longrightarrow>
     Phase (Status_ComputeGroupStatuses (setPhase cluster i p) ! i) = p"
  by (simp add: setPhase_def)

lemma findCGStatus_update:
  "findCGStatus cgss uid = Some i \<Longrightarrow> findCGStatus (cgss[i := (cgss ! i)\<lparr>Phase := p\<rparr>]) uid = Some i"
  by (induction cgss arbitrary: i) (auto split: if_splits)

lemma findCGStatus_setPhase:
  "findCGStatus (Status_ComputeGroupStatuses cluster) uid = Some i \<Longrightarrow>
     findCGStatus (Status_ComputeGroupStatuses (setPhase cluster i p)) uid = Some i"
  by (simp add: setPhase_def findCGStatus_update)

text \<open>
  Claim C6. Let \<^verbatim>\<open>reconcileStatefulset\<close> find the StatefulSet and the status of the
  group, let \<^verbatim>\<open>getScaleType\<close> return \<^verbatim>\<open>"scaleDown"\<close> and let the StatefulSet be
  applied, so that the drain \<^verbatim>\<open>scaledOutBENodesBySQL\<close> is called with the replica
  count of the group as keep amount. When the drain returns an error, the phase of the
  status is \<open>ScaleDownFailed\<close> afterwards and the function returns that error, with a
  warning event of reason \<^verbatim>\<open>CGSqlExecFailed\<close>; when the drain returns no error, the
  phase is \<open>Scaling\<close> and the function returns neither an event nor an error.
\<close>

theorem reconcileStatefulset_scaleDown:
  assumes get: "K8sclient_Get_StatefulSet e log (Namespace st) (Name st) = Inr est"
    and find: "findCGStatus (Status_ComputeGroupStatuses cluster) (ComputeGroup.UniqueId cg) = Some i"
    and scale: "getScaleType st est (Phase (Status_ComputeGroupStatuses cluster ! i)) = Inr ''scaleDown''"
    and appl: "ApplyStatefulSet e (log @ [Call_Get_StatefulSet (Namespace st) (Name st) (Inr est)]) st = None"
    and keep: "ComputeGroup.Replicas cg = Some cgKeepAmount"
    and drain: "scaledOutBENodesBySQL e cluster (GetCGName e cluster cg) cgKeepAmount
                  (log @ [Call_Get_StatefulSet (Namespace st) (Name st) (Inr est),
                          Call_ApplyStatefulSet st None]) = (r, log')"
  shows "\<exists>ev cluster'.
           reconcileStatefulset e st cluster cg log = Inr ((ev, r), cluster', log') \<and>
           findCGStatus (Status_ComputeGroupStatuses cluster') (ComputeGroup.UniqueId cg) = Some i \<and>
           (case r of
              Some err \<Rightarrow>
                Phase (Status_ComputeGroupStatuses cluster' ! i) = ScaleDownFailed \<and>
                ev = Some \<lparr>Type = EventWarning, Reason = CGSqlExecFailed, Message = ErrorString err\<rparr>
            | None \<Rightarrow>
                Phase (Status_ComputeGroupStatuses cluster' ! i) = Scaling \<and> ev = None)"
proof -
  from find have i: "i < length (Status_ComputeGroupStatuses cluster)"
    by (simp add: findCGStatus_Some)
  show ?thesis
  proof (cases r)
    case None
    with assms have "reconcileStatefulset e st cluster cg log =
        Inr ((None, None), setPhase cluster i Scaling, log')"
      by (simp add: reconcileStatefulset_def Let_def)
    with None i find show ?thesis
      by (simp add: setPhase_at findCGStatus_setPhase)
  next
    case (Some err)
    with assms have "reconcileStatefulset e st cluster cg log =
        Inr ((Some \<lparr>Type = EventWarning, Reason = CGSqlExecFailed, Message = ErrorString err\<rparr>,
              Some err), setPhase cluster i ScaleDownFailed, log')"
      by (simp add: reconcileStatefulset_def Let_def)
    with Some i find show ?thesis
      by (simp add: setPhase_at findCGStatus_setPhase)
  qed
qed

text \<open>
  Three replicas asked for, five at hand, five backends: the drain removes the backends
  of ordinal 3 and 4 and the status goes from \<open>Reconciling\<close> to \<open>Scaling\<close>.
\<close>

theorem reconcileStatefulset_scaleDown_witness:
  "K8sclient_Get_StatefulSet envFive [] (Namespace st3) (Name st3) =
     Inr \<lparr>Namespace = ''ns'', Name = ''d-cg1'', Spec_Replicas = Some 5\<rparr> \<and>
   findCGStatus (Status_ComputeGroupStatuses (ddcTwo Reconciling)) (ComputeGroup.UniqueId (cg0 ''cg1'' 3)) = Some 1 \<and>
   getScaleType st3 \<lparr>Namespace = ''ns'', Name = ''d-cg1'', Spec_Replicas = Some 5\<rparr>
     (Phase (Status_ComputeGroupStatuses (ddcTwo Reconciling) ! 1)) = Inr ''scaleDown'' \<and>
   ApplyStatefulSet envFive
     ([] @ [Call_Get_StatefulSet (Namespace st3) (Name st3)
              (Inr \<lparr>Namespace = ''ns'', Name = ''d-cg1'', Spec_Replicas = Some 5\<rparr>)]) st3 = None \<and>
   ComputeGroup.Replicas (cg0 ''cg1'' 3) = Some 3 \<and>
   (\<exists>cluster' log'.
      reconcileStatefulset envFive st3 (ddcTwo Reconciling) (cg0 ''cg1'' 3) [] =
        Inr ((None, None), cluster', log') \<and>
      DropBE_calls log' = [[be ''d-cg1-3.svc'', be ''d-cg1-4.svc'']] \<and>
      Phase (Status_ComputeGroupStatuses cluster' ! 1) = Scaling)"
proof -
  let ?est = "\<lparr>Namespace = ''ns'', Name = ''d-cg1'', Spec_Replicas = Some (5 :: int32)\<rparr>"
  let ?log2 = "[] @ [Call_Get_StatefulSet (Namespace st3) (Name st3) (Inr ?est),
                  Call_ApplyStatefulSet st3 None]"
  let ?drain = "scaledOutBENodesBySQL envFive (ddcTwo Reconciling)
                  (GetCGName envFive (ddcTwo Reconciling) (cg0 ''cg1'' 3)) 3 ?log2"
  have h1: "K8sclient_Get_StatefulSet envFive [] (Namespace st3) (Name st3) = Inr ?est"
    by (simp add: envFive_def env0_def five_def be_def st3_def ddcTwo_def ddc0_def cg0_def
      status0_def)
  have h2: "findCGStatus (Status_ComputeGroupStatuses (ddcTwo Reconciling))
              (ComputeGroup.UniqueId (cg0 ''cg1'' 3)) = Some 1"
    by (simp add: envFive_def env0_def five_def be_def st3_def ddcTwo_def ddc0_def cg0_def
      status0_def)
  have h3: "getScaleType st3 ?est (Phase (Status_ComputeGroupStatuses (ddcTwo Reconciling) ! 1)) =
              Inr ''scaleDown''"
    by (simp add: getScaleType_def envFive_def env0_def five_def be_def st3_def ddcTwo_def ddc0_def cg0_def
      status0_def)
  have h4: "ApplyStatefulSet envFive
              ([] @ [Call_Get_StatefulSet (Namespace st3) (Name st3) (Inr ?est)]) st3 = None"
    by (simp add: envFive_def env0_def five_def be_def st3_def ddcTwo_def ddc0_def cg0_def
      status0_def)
  have h5: "ComputeGroup.Replicas (cg0 ''cg1'' 3) = Some 3"
    by (simp add: envFive_def env0_def five_def be_def st3_def ddcTwo_def ddc0_def cg0_def
      status0_def)
  have h6: "?drain = (fst ?drain, snd ?drain)"
    by simp
  have r: "fst ?drain = None"
    by (simp add: scaledOutBENodesBySQL_def envFive_def env0_def five_def be_def st3_def ddcTwo_def ddc0_def cg0_def
      status0_def go_defs)
  have d: "DropBE_calls (snd ?drain) = [[be ''d-cg1-3.svc'', be ''d-cg1-4.svc'']]"
    by (simp add: scaledOutBENodesBySQL_def envFive_def env0_def five_def be_def st3_def ddcTwo_def ddc0_def cg0_def
      status0_def go_defs)
  from reconcileStatefulset_scaleDown [OF h1 h2 h3 h4 h5 h6] r d
  have "\<exists>cluster' log'.
      reconcileStatefulset envFive st3 (ddcTwo Reconciling) (cg0 ''cg1'' 3) [] =
        Inr ((None, None), cluster', log') \<and>
      DropBE_calls log' = [[be ''d-cg1-3.svc'', be ''d-cg1-4.svc'']] \<and>
      Phase (Status_ComputeGroupStatuses cluster' ! 1) = Scaling"
    by auto
  with h1 h2 h3 h4 h5 show ?thesis by blast
qed

subsection \<open>No drain without a shrink\<close>

lemma sint_sub_nonneg:
  fixes a b :: int32
  assumes "0 \<le> sint b" and "sint b \<le> sint a"
  shows "\<not> sint (a - b) < 0"
proof -
  have "sint a < 2 ^ 31" using sint_lt [of a] by simp
  with assms have "- (2 ^ 31) \<le> sint a - sint b" "sint a - sint b < 2 ^ 31" by auto
  then have "signed_take_bit 31 (sint a - sint b) = sint a - sint b"
    by (simp add: signed_take_bit_int_eq_self)
  then have "sint (a - b) = sint a - sint b"
    by (simp add: sint_word_ariths)
  with assms show ?thesis by simp
qed

text \<open>
  Claim C3, as the claim reads: no removal call in a cycle whose desired replica count
  is at least the one applied before. It fails for a compute group whose status is in
  \<open>ScaleDownFailed\<close>: \<^verbatim>\<open>getScaleType\<close> then returns \<^verbatim>\<open>"scaleDown"\<close> whatever the
  counts are. Here three replicas are asked for and three are at hand, and the drain
  is called and removes the backends of ordinal 3 and 4.
\<close>

theorem no_drain_claim_counterexample:
  "Spec_Replicas st3 = Some 3 \<and>
   K8sclient_Get_StatefulSet envRetry [] (Namespace st3) (Name st3) = Inr st3 \<and>
   \<not> sint (3 :: int32) < sint (3 :: int32) \<and>
   DropBE_calls (case reconcileStatefulset envRetry st3 (ddcTwo ScaleDownFailed) (cg0 ''cg1'' 3) [] of
                   Inl p \<Rightarrow> [] | Inr (res, ddc', log') \<Rightarrow> log') =
     [[be ''d-cg1-3.svc'', be ''d-cg1-4.svc'']]"
  by (simp add: reconcileStatefulset_def scaledOutBENodesBySQL_def getScaleType_def
      envRetry_def envFive_def env0_def five_def be_def st3_def ddcTwo_def ddc0_def
      cg0_def status0_def go_defs)

text \<open>
  Claim C3, amended. On the frontend path, when the StatefulSet at hand has a replica
  count that is not negative and not above the desired one (a missing desired count
  counts as 0), \<^verbatim>\<open>prepareStatefulsetApply\<close> returns \<^verbatim>\<open>nil\<close> without a call to the
  SQL client, hence without \<^verbatim>\<open>dropObserverBySqlClient\<close>; so it does when the
  StatefulSet cannot be read. On the compute-group path, when the replica count of the
  StatefulSet at hand is not above the desired one and the status of the group is not
  in \<open>ScaleDownFailed\<close>, \<^verbatim>\<open>reconcileStatefulset\<close> returns without a call to the SQL
  client, hence without \<^verbatim>\<open>scaledOutBENodesBySQL\<close>, and leaves the cluster as it was.
\<close>

theorem no_drain_unless_shrinking:
  "((\<forall>oldSt. K8sclient_Get_StatefulSet e log (Namespace dcr)
                (GenerateComponentStatefulSetName e dcr Component_FE) = Inr oldSt \<longrightarrow>
        (\<exists>old. Spec_Replicas oldSt = Some old \<and> 0 \<le> sint old \<and>
           sint old \<le> sint (case Spec_FeSpec_Replicas dcr of None \<Rightarrow> 0 | Some R \<Rightarrow> R))) \<longrightarrow>
      (\<exists>dcr' new. prepareStatefulsetApply e dcr log = Inr (None, dcr', log @ new) \<and>
         sqlCalls new = [])) \<and>
   (Spec_Replicas st = Some R \<and>
    findCGStatus (Status_ComputeGroupStatuses ddc) (ComputeGroup.UniqueId cg) = Some i \<and>
    Phase (Status_ComputeGroupStatuses ddc ! i) \<noteq> ScaleDownFailed \<and>
    (\<forall>est. K8sclient_Get_StatefulSet e log (Namespace st) (Name st) = Inr est \<longrightarrow>
       (\<exists>old. Spec_Replicas est = Some old \<and> sint old \<le> sint R)) \<longrightarrow>
      (\<exists>res new. reconcileStatefulset e st ddc cg log = Inr (res, ddc, log @ new) \<and>
         sqlCalls new = []))"
proof (intro conjI impI)
  let ?n = "GenerateComponentStatefulSetName e dcr Component_FE"
  assume h: "\<forall>oldSt. K8sclient_Get_StatefulSet e log (Namespace dcr) ?n = Inr oldSt \<longrightarrow>
        (\<exists>old. Spec_Replicas oldSt = Some old \<and> 0 \<le> sint old \<and>
           sint old \<le> sint (case Spec_FeSpec_Replicas dcr of None \<Rightarrow> 0 | Some R \<Rightarrow> R))"
  show "\<exists>dcr' new. prepareStatefulsetApply e dcr log = Inr (None, dcr', log @ new) \<and>
         sqlCalls new = []"
  proof (cases "K8sclient_Get_StatefulSet e log (Namespace dcr) ?n")
    case (Inl err)
    then show ?thesis
      by (simp add: prepareStatefulsetApply_def Let_def sqlCalls_def)
  next
    case (Inr oldSt)
    with h obtain old where old: "Spec_Replicas oldSt = Some old" "0 \<le> sint old"
      "sint old \<le> sint (case Spec_FeSpec_Replicas dcr of None \<Rightarrow> 0 | Some R \<Rightarrow> R)"
      by blast
    define R where "R = (case Spec_FeSpec_Replicas dcr of None \<Rightarrow> 0 | Some R \<Rightarrow> R)"
    define dcr1 where "dcr1 = (if Spec_FeSpec_Replicas dcr = None
                              then dcr\<lparr>Spec_FeSpec_Replicas := Some 0\<rparr> else dcr)"
    have R1: "(case Spec_FeSpec_Replicas dcr1 of None \<Rightarrow> 0 | Some r \<Rightarrow> r) = R"
      by (auto simp: dcr1_def R_def split: option.splits)
    define ele where "ele = GetElectionNumber e dcr1"
    from old have a: "sint R < sint ele \<Longrightarrow> \<not> sint (ele - old) < 0"
      and b: "\<not> sint (R - old) < 0"
      by (simp_all add: sint_sub_nonneg R_def)
    from Inr old a b R1 show ?thesis
      by (simp add: prepareStatefulsetApply_def Let_def sqlCalls_def
          dcr1_def [symmetric] ele_def [symmetric])
  qed
next
  assume h: "Spec_Replicas st = Some R \<and>
    findCGStatus (Status_ComputeGroupStatuses ddc) (ComputeGroup.UniqueId cg) = Some i \<and>
    Phase (Status_ComputeGroupStatuses ddc ! i) \<noteq> ScaleDownFailed \<and>
    (\<forall>est. K8sclient_Get_StatefulSet e log (Namespace st) (Name st) = Inr est \<longrightarrow>
       (\<exists>old. Spec_Replicas est = Some old \<and> sint old \<le> sint R))"
  show "\<exists>res new. reconcileStatefulset e st ddc cg log = Inr (res, ddc, log @ new) \<and>
         sqlCalls new = []"
  proof (cases "K8sclient_Get_StatefulSet e log (Namespace st) (Name st)")
    case (Inl err)
    then show ?thesis
      by (simp add: reconcileStatefulset_def Let_def sqlCalls_def split: option.split)
  next
    case (Inr est)
    with h obtain old where "Spec_Replicas est = Some old" "sint old \<le> sint R" by blast
    with h have "getScaleType st est (Phase (Status_ComputeGroupStatuses ddc ! i)) = Inr []"
      by (simp add: getScaleType_def)
    with Inr h show ?thesis
      by (simp add: reconcileStatefulset_def Let_def sqlCalls_def split: option.split)
  qed
qed

theorem no_drain_unless_shrinking_witness:
  "K8sclient_Get_StatefulSet env0 [] (Namespace dcr0)
     (GenerateComponentStatefulSetName env0 dcr0 Component_FE) =
     Inr \<lparr>Namespace = ''ns'', Name = ''d-fe'', Spec_Replicas = Some 5\<rparr> \<and>
   (0::int) \<le> sint (5 :: int32) \<and>
   sint (5 :: int32) \<le> sint (case Spec_FeSpec_Replicas (dcr0\<lparr>Spec_FeSpec_Replicas := Some 5\<rparr>) of
                             None \<Rightarrow> 0 | Some R \<Rightarrow> R) \<and>
   (\<exists>dcr' new. prepareStatefulsetApply env0 (dcr0\<lparr>Spec_FeSpec_Replicas := Some 5\<rparr>) [] =
        Inr (None, dcr', [] @ new) \<and> sqlCalls new = []) \<and>
   Spec_Replicas st3 = Some 3 \<and>
   findCGStatus (Status_ComputeGroupStatuses (ddcTwo Ready)) (ComputeGroup.UniqueId (cg0 ''cg1'' 3)) = Some 1 \<and>
   Phase (Status_ComputeGroupStatuses (ddcTwo Ready) ! 1) \<noteq> ScaleDownFailed \<and>
   K8sclient_Get_StatefulSet envRetry [] (Namespace st3) (Name st3) = Inr st3 \<and>
   (\<exists>res new. reconcileStatefulset envRetry st3 (ddcTwo Ready) (cg0 ''cg1'' 3) [] =
        Inr (res, ddcTwo Ready, [] @ new) \<and> sqlCalls new = [])"
proof -
  let ?dcr = "dcr0\<lparr>Spec_FeSpec_Replicas := Some 5\<rparr>"
  have g: "K8sclient_Get_StatefulSet env0 [] (Namespace ?dcr)
     (GenerateComponentStatefulSetName env0 ?dcr Component_FE) =
     Inr \<lparr>Namespace = ''ns'', Name = ''d-fe'', Spec_Replicas = Some 5\<rparr>"
    by (simp add: env0_def envFive_def envRetry_def dcr0_def st3_def ddcTwo_def ddc0_def cg0_def
      status0_def)
  have fe_hyp: "\<forall>oldSt. K8sclient_Get_StatefulSet env0 [] (Namespace ?dcr)
                (GenerateComponentStatefulSetName env0 ?dcr Component_FE) = Inr oldSt \<longrightarrow>
        (\<exists>old. Spec_Replicas oldSt = Some old \<and> 0 \<le> sint old \<and>
           sint old \<le> sint (case Spec_FeSpec_Replicas ?dcr of None \<Rightarrow> 0 | Some R \<Rightarrow> R))"
    by (simp add: g) (simp add: env0_def envFive_def envRetry_def dcr0_def st3_def ddcTwo_def ddc0_def cg0_def
      status0_def)
  have cg_hyp: "Spec_Replicas st3 = Some 3 \<and>
    findCGStatus (Status_ComputeGroupStatuses (ddcTwo Ready)) (ComputeGroup.UniqueId (cg0 ''cg1'' 3)) = Some 1 \<and>
    Phase (Status_ComputeGroupStatuses (ddcTwo Ready) ! 1) \<noteq> ScaleDownFailed \<and>
    (\<forall>est. K8sclient_Get_StatefulSet envRetry [] (Namespace st3) (Name st3) = Inr est \<longrightarrow>
       (\<exists>old. Spec_Replicas est = Some old \<and> sint old \<le> sint (3 :: int32)))"
    by (simp add: env0_def envFive_def envRetry_def dcr0_def st3_def ddcTwo_def ddc0_def cg0_def
      status0_def)
  have g2: "K8sclient_Get_StatefulSet envRetry [] (Namespace st3) (Name st3) = Inr st3"
    by (simp add: env0_def envFive_def envRetry_def dcr0_def st3_def ddcTwo_def ddc0_def cg0_def
      status0_def)
  from no_drain_unless_shrinking [of env0 "[]" ?dcr st3 3 "ddcTwo Ready" "cg0 ''cg1'' 3" 1]
  have fe_part: "\<exists>dcr' new. prepareStatefulsetApply env0 ?dcr [] = Inr (None, dcr', [] @ new) \<and> sqlCalls new = []"
    using fe_hyp by blast
  from no_drain_unless_shrinking [of envRetry "[]" ?dcr st3 3 "ddcTwo Ready" "cg0 ''cg1'' 3" 1]
  have cg_part: "\<exists>res new. reconcileStatefulset envRetry st3 (ddcTwo Ready) (cg0 ''cg1'' 3) [] =
        Inr (res, ddcTwo Ready, [] @ new) \<and> sqlCalls new = []"
    using cg_hyp by blast
  from g have g': "K8sclient_Get_StatefulSet env0 [] (Namespace dcr0)
     (GenerateComponentStatefulSetName env0 dcr0 Component_FE) =
     Inr \<lparr>Namespace = ''ns'', Name = ''d-fe'', Spec_Replicas = Some 5\<rparr>"
    by (simp add: env0_def envFive_def envRetry_def dcr0_def st3_def ddcTwo_def ddc0_def cg0_def
      status0_def)
  from cg_hyp have c1: "Spec_Replicas st3 = Some 3"
    and c2: "findCGStatus (Status_ComputeGroupStatuses (ddcTwo Ready)) (ComputeGroup.UniqueId (cg0 ''cg1'' 3)) = Some 1"
    and c3: "Phase (Status_ComputeGroupStatuses (ddcTwo Ready) ! 1) \<noteq> ScaleDownFailed"
    by blast+
  have n: "(0::int) \<le> sint (5 :: int32)"
     "sint (5 :: int32) \<le> sint (case Spec_FeSpec_Replicas ?dcr of None \<Rightarrow> 0 | Some R \<Rightarrow> R)"
    by simp_all
  from g' n fe_part c1 c2 c3 g2 cg_part show ?thesis by blast
qed

subsection \<open>The drain of the observers\<close>

text \<open>\<^verbatim>\<open>dropObserverBySqlClient\<close> with its reads and its settings named.\<close>

lemma dropObserverBySqlClient_unfold:
  "dropObserverBySqlClient e dcr log =
     (case NewDorisMasterSqlDB e (log @ dropObserverReads dcr) (dropObserverDBConf e dcr log) of
        Some err \<Rightarrow>
          Inr (Some err, log @ dropObserverReads dcr @
                 [Call_NewDorisMasterSqlDB (dropObserverDBConf e dcr log) (Some err)])
      | None \<Rightarrow>
          (case GetObservers e (log @ dropObserverReads dcr @
                  [Call_NewDorisMasterSqlDB (dropObserverDBConf e dcr log) None]) of
             Inl err \<Rightarrow>
               Inr (Some err, log @ dropObserverReads dcr @
                      [Call_NewDorisMasterSqlDB (dropObserverDBConf e dcr log) None,
                       Call_GetObservers (Inl err), Call_Close])
           | Inr allObserves \<Rightarrow>
               (case Spec_FeSpec_Replicas dcr of
                  None \<Rightarrow> Inl NilPointerDereference
                | Some replicas \<Rightarrow>
                    if sint ((of_nat (length allObserves) :: int32) - replicas + GetElectionNumber e dcr) \<le> 0
                    then Inr (None, log @ dropObserverReads dcr @
                                [Call_NewDorisMasterSqlDB (dropObserverDBConf e dcr log) None,
                                 Call_GetObservers (Inr allObserves), Call_Close])
                    else (case resolveFrontendMap e dcr (dropObserverMaps e dcr log) allObserves
                                 (log @ dropObserverReads dcr @
                                    [Call_NewDorisMasterSqlDB (dropObserverDBConf e dcr log) None,
                                     Call_GetObservers (Inr allObserves)]) of
                            (Inl err, log5) \<Rightarrow> Inr (None, log5 @ [Call_Close])
                          | (Inr frontendMap, log5) \<Rightarrow>
                              Inr (dropSelected e frontendMap
                                     ((of_nat (length allObserves) :: int32) - replicas + GetElectionNumber e dcr)
                                     log5)))))"
  by (simp add: dropObserverBySqlClient_def Let_def split_beta dropObserverReads_def
      dropObserverDBConf_def dropObserverMaps_def split: option.split sum.split)

lemma DropObserver_calls_append:
  "DropObserver_calls (xs @ ys) = DropObserver_calls xs @ DropObserver_calls ys"
  by (induction xs rule: DropObserver_calls.induct) auto

lemma resolveFrontendMap_log:
  "\<exists>new. snd (resolveFrontendMap e dcr maps obs log) = log @ new \<and> DropObserver_calls new = []"
  by (simp add: resolveFrontendMap_def Let_def split: sum.split)

lemma length_map_filter_all:
  "(\<forall>x\<in>set xs. f x \<noteq> None) \<Longrightarrow> length (List.map_filter f xs) = length xs"
  by (induction xs) (auto simp: List.map_filter_simps split: option.splits)

lemma length_FindNeedDeletedFrontends:
  "length (FindNeedDeletedFrontends frontendMap n) =
     min (nat (sint n)) (card (fst ` set frontendMap))"
proof -
  let ?keys = "rev (sort (remdups (map fst frontendMap)))"
  have "\<forall>k\<in>set (take (nat (sint n)) ?keys). map_of frontendMap k \<noteq> None"
  proof
    fix k assume "k \<in> set (take (nat (sint n)) ?keys)"
    then have "k \<in> set ?keys" by (rule in_set_takeD)
    then have "k \<in> fst ` set frontendMap" by simp
    then show "map_of frontendMap k \<noteq> None" by (simp add: map_of_eq_None_iff)
  qed
  then have "length (FindNeedDeletedFrontends frontendMap n) = length (take (nat (sint n)) ?keys)"
    by (simp add: FindNeedDeletedFrontends_def Let_def length_map_filter_all)
  also have "\<dots> = min (nat (sint n)) (length (remdups (map fst frontendMap)))"
    by (simp add: min.commute)
  also have "length (remdups (map fst frontendMap)) = card (fst ` set frontendMap)"
    by (simp add: length_remdups_card_conv)
  finally show ?thesis .
qed

lemma set_FindNeedDeletedFrontends:
  "set (FindNeedDeletedFrontends frontendMap n) \<subseteq> snd ` set frontendMap"
proof
  fix x assume "x \<in> set (FindNeedDeletedFrontends frontendMap n)"
  then obtain k where "map_of frontendMap k = Some x"
    by (auto simp: FindNeedDeletedFrontends_def Let_def List.map_filter_def)
  then have "(k, x) \<in> set frontendMap" by (rule map_of_SomeD)
  then show "x \<in> snd ` set frontendMap" by force
qed


lemma needRemoved_int:
  fixes R Q :: int32
  assumes "0 \<le> sint Q" "sint Q \<le> sint R" "L < 2 ^ 31"
  shows "sint ((of_nat L :: int32) - R + Q) = int L - sint R + sint Q"
proof -
  have R: "sint R < 2 ^ 31" using sint_lt [of R] by simp
  have "(of_nat L :: int32) - R + Q = of_int (int L - sint R + sint Q)"
    by simp
  moreover have "- (2 ^ 31) \<le> int L - sint R + sint Q" "int L - sint R + sint Q < 2 ^ 31"
    using assms R by auto
  ultimately show ?thesis
    by (simp only: sint_sbintrunc') (simp add: signed_take_bit_int_eq_self)
qed

text \<open>
  Claim C2, as the claim reads: whenever \<^verbatim>\<open>needRemoved\<close> is positive, one
  \<^verbatim>\<open>DropObserver\<close> call is issued. It fails when the ordinal mapping cannot be
  built: with four observers, a desired count of three and an election number of three,
  \<^verbatim>\<open>needRemoved\<close> is 4, \<^verbatim>\<open>BuildSeqNumberToFrontendMap\<close> returns an error, and the
  function ends without a removal call.
\<close>

theorem dropObserver_claim_counterexample:
  "0 < sint ((of_nat (length four) :: int32) - 3 + GetElectionNumber envUnresolved dcr0) \<and>
   Spec_FeSpec_Replicas dcr0 = Some 3 \<and>
   Call_GetObservers (Inr four) \<in>
     set (case dropObserverBySqlClient envUnresolved dcr0 [] of
            Inl p \<Rightarrow> [] | Inr (r, log') \<Rightarrow> log') \<and>
   DropObserver_calls (case dropObserverBySqlClient envUnresolved dcr0 [] of
                         Inl p \<Rightarrow> [] | Inr (r, log') \<Rightarrow> log') = []"
  by (simp add: dropObserverBySqlClient_def resolveFrontendMap_def envUnresolved_def envFour_def env0_def four_def fe_def dcr0_def go_defs)

text \<open>
  Claim C2, amended. Let the connection to the master be opened and the observers be
  listed, \<open>L\<close> of them, and let \<open>R\<close> be the desired replica count and \<open>Q\<close> the
  election number. The function computes \<^verbatim>\<open>needRemoved\<close> as \<open>L - R + Q\<close> in
  \<^verbatim>\<open>int32\<close> (lemma \<open>needRemoved_int\<close>: the integer \<open>L - R + Q\<close> when
  \<open>0 \<le> Q \<le> R\<close>). When \<^verbatim>\<open>needRemoved\<close> is not positive, it issues no removal
  call and returns \<^verbatim>\<open>nil\<close>. When it is positive and the ordinal mapping is
  built, it issues exactly one \<^verbatim>\<open>DropObserver\<close> call, with the frontends that
  \<^verbatim>\<open>FindNeedDeletedFrontends\<close> selects from the mapping, and returns what that call
  returns; the selection holds frontends of the mapping, \<^verbatim>\<open>needRemoved\<close> of them
  when the mapping has that many ordinals, and all of them otherwise. When the mapping
  cannot be built (the pods cannot be listed, or \<^verbatim>\<open>BuildSeqNumberToFrontendMap\<close>
  fails), it issues no removal call.
\<close>

theorem dropObserverBySqlClient_needRemoved:
  assumes conn: "NewDorisMasterSqlDB e (log @ dropObserverReads dcr) (dropObserverDBConf e dcr log) = None"
    and obs: "GetObservers e (log @ dropObserverReads dcr @
                [Call_NewDorisMasterSqlDB (dropObserverDBConf e dcr log) None]) = Inr allObserves"
    and repl: "Spec_FeSpec_Replicas dcr = Some R"
    and need: "needRemoved = (of_nat (length allObserves) :: int32) - R + GetElectionNumber e dcr"
    and res: "resolveFrontendMap e dcr (dropObserverMaps e dcr log) allObserves
                (log @ dropObserverReads dcr @
                   [Call_NewDorisMasterSqlDB (dropObserverDBConf e dcr log) None,
                    Call_GetObservers (Inr allObserves)]) = (resolved, log5)"
  shows "\<exists>r new. dropObserverBySqlClient e dcr log = Inr (r, log @ new) \<and>
           (if sint needRemoved \<le> 0 then r = None \<and> DropObserver_calls new = []
            else (case resolved of
                    Inl err \<Rightarrow> DropObserver_calls new = []
                  | Inr frontendMap \<Rightarrow>
                      DropObserver_calls new = [FindNeedDeletedFrontends frontendMap needRemoved] \<and>
                      r = DropObserver e log5 (FindNeedDeletedFrontends frontendMap needRemoved) \<and>
                      set (FindNeedDeletedFrontends frontendMap needRemoved) \<subseteq> snd ` set frontendMap \<and>
                      length (FindNeedDeletedFrontends frontendMap needRemoved) =
                        min (nat (sint needRemoved)) (card (fst ` set frontendMap))))"
proof -
  let ?log4 = "log @ dropObserverReads dcr @
                 [Call_NewDorisMasterSqlDB (dropObserverDBConf e dcr log) None,
                  Call_GetObservers (Inr allObserves)]"
  from resolveFrontendMap_log [of e dcr "dropObserverMaps e dcr log" allObserves ?log4] res
  obtain new5 where new5: "log5 = ?log4 @ new5" "DropObserver_calls new5 = []"
    by auto
  show ?thesis
  proof (cases "sint needRemoved \<le> 0")
    case True
    with conn obs repl need have "dropObserverBySqlClient e dcr log =
        Inr (None, ?log4 @ [Call_Close])"
      by (simp add: dropObserverBySqlClient_unfold)
    with True show ?thesis by (simp add: dropObserverReads_def)
  next
    case False
    note pos = this
    show ?thesis
    proof (cases resolved)
      case (Inl err)
      with conn obs repl need res pos have "dropObserverBySqlClient e dcr log =
          Inr (None, log5 @ [Call_Close])"
        by (simp add: dropObserverBySqlClient_unfold)
      with pos Inl new5 show ?thesis
        by (simp add: dropObserverReads_def DropObserver_calls_append)
    next
      case (Inr frontendMap)
      let ?sel = "FindNeedDeletedFrontends frontendMap needRemoved"
      from Inr conn obs repl need res pos have "dropObserverBySqlClient e dcr log =
          Inr (DropObserver e log5 ?sel,
               log5 @ [Call_DropObserver ?sel (DropObserver e log5 ?sel), Call_Close])"
        by (simp add: dropObserverBySqlClient_unfold dropSelected_def Let_def)
      with pos Inr new5 show ?thesis
        by (simp add: dropObserverReads_def length_FindNeedDeletedFrontends
            set_FindNeedDeletedFrontends DropObserver_calls_append)
    qed
  qed
qed

text \<open>
  Four observers, desired count three, election number three: \<^verbatim>\<open>needRemoved\<close> is 4
  and the one removal call carries the four observers, highest ordinal first.
\<close>

theorem dropObserverBySqlClient_needRemoved_witness:
  "NewDorisMasterSqlDB envFour ([] @ dropObserverReads dcr0) (dropObserverDBConf envFour dcr0 []) = None \<and>
   GetObservers envFour ([] @ dropObserverReads dcr0 @
      [Call_NewDorisMasterSqlDB (dropObserverDBConf envFour dcr0 []) None]) = Inr four \<and>
   Spec_FeSpec_Replicas dcr0 = Some 3 \<and>
   sint ((of_nat (length four) :: int32) - 3 + GetElectionNumber envFour dcr0) = 4 \<and>
   (\<exists>new. dropObserverBySqlClient envFour dcr0 [] = Inr (None, [] @ new) \<and>
      DropObserver_calls new =
        [[fe ''d-fe-x.svc'', fe ''d-fe-2.svc'', fe ''d-fe-1.svc'', fe ''d-fe-0.svc'']])"
proof -
  let ?log4 = "[] @ dropObserverReads dcr0 @
                 [Call_NewDorisMasterSqlDB (dropObserverDBConf envFour dcr0 []) None,
                  Call_GetObservers (Inr four)]"
  let ?fm = "[(0, fe ''d-fe-0.svc''), (1, fe ''d-fe-1.svc''), (2, fe ''d-fe-2.svc''),
              (3::int, fe ''d-fe-x.svc'')]"
  have h1: "NewDorisMasterSqlDB envFour ([] @ dropObserverReads dcr0)
              (dropObserverDBConf envFour dcr0 []) = None"
    by (simp add: envFour_def env0_def four_def fe_def dcr0_def)
  have h2: "GetObservers envFour ([] @ dropObserverReads dcr0 @
      [Call_NewDorisMasterSqlDB (dropObserverDBConf envFour dcr0 []) None]) = Inr four"
    by (simp add: envFour_def env0_def four_def fe_def dcr0_def)
  have h3: "Spec_FeSpec_Replicas dcr0 = Some 3"
    by (simp add: envFour_def env0_def four_def fe_def dcr0_def)
  have h4: "(4 :: int32) = (of_nat (length four) :: int32) - 3 + GetElectionNumber envFour dcr0"
    by (simp add: envFour_def env0_def four_def fe_def dcr0_def)
  have h5: "resolveFrontendMap envFour dcr0 (dropObserverMaps envFour dcr0 []) four ?log4 =
              (Inr ?fm, ?log4)"
    by (simp add: resolveFrontendMap_def envFour_def env0_def four_def fe_def dcr0_def)
  have sel: "FindNeedDeletedFrontends ?fm 4 =
      [fe ''d-fe-x.svc'', fe ''d-fe-2.svc'', fe ''d-fe-1.svc'', fe ''d-fe-0.svc'']"
    by (simp add: FindNeedDeletedFrontends_def List.map_filter_simps)
  have r: "DropObserver envFour ?log4 (FindNeedDeletedFrontends ?fm 4) = None"
    by (simp add: envFour_def env0_def four_def fe_def dcr0_def)
  from dropObserverBySqlClient_needRemoved [OF h1 h2 h3 h4 h5] sel r
  have "\<exists>new. dropObserverBySqlClient envFour dcr0 [] = Inr (None, [] @ new) \<and>
      DropObserver_calls new =
        [[fe ''d-fe-x.svc'', fe ''d-fe-2.svc'', fe ''d-fe-1.svc'', fe ''d-fe-0.svc'']]"
    by auto
  moreover have "sint ((of_nat (length four) :: int32) - 3 + GetElectionNumber envFour dcr0) = 4"
    by (simp add: envFour_def env0_def four_def fe_def dcr0_def)
  ultimately show ?thesis using h1 h2 h3 by blast
qed

subsection \<open>Errors of a drain\<close>

text \<open>
  Claim C4. The claim holds for the compute group (lemma
  \<open>scaledOutBENodesBySQL_returns_errors\<close> below: the function returns \<^verbatim>\<open>nil\<close> only
  when every step succeeded) and fails for the metadata tier:
  \<^verbatim>\<open>dropObserverBySqlClient\<close> returns \<^verbatim>\<open>nil\<close> after an error of
  \<^verbatim>\<open>BuildSeqNumberToFrontendMap\<close> and after an error of \<^verbatim>\<open>GetPods\<close>. Here the
  ordinal of the observer \<^verbatim>\<open>d-fe-x.svc\<close> cannot be read, and in the second run the
  pods cannot be listed; both runs end with the result \<open>None\<close>, the \<^verbatim>\<open>nil\<close> error.
\<close>

theorem dropObserverBySqlClient_swallows_resolution_errors:
  "BuildSeqNumberToFrontendMap envUnresolved four None
     (GeneratePodTemplateName envUnresolved dcr0 Component_FE) = Inl (ErrSyntax ''x'') \<and>
   dropObserverBySqlClient envUnresolved dcr0 [] =
     Inr (None, dropObserverReads dcr0 @
            [Call_NewDorisMasterSqlDB (dropObserverDBConf envUnresolved dcr0 []) None,
             Call_GetObservers (Inr four), Call_Close]) \<and>
   dropObserverBySqlClient envNoPods dcr0 [] =
     Inr (None, dropObserverReads dcr0 @
            [Call_NewDorisMasterSqlDB (dropObserverDBConf envNoPods dcr0 []) None,
             Call_GetObservers (Inr four),
             Call_GetPods ''ns'' [] (Inl (Err ''pods: forbidden'')), Call_Close])"
  by (simp add: dropObserverBySqlClient_def resolveFrontendMap_def dropObserverReads_def
      dropObserverDBConf_def dropObserverMaps_def envUnresolved_def envNoPods_def envFour_def env0_def four_def fe_def dcr0_def go_defs)

text \<open>
  The compute-group path returns every error: a \<^verbatim>\<open>nil\<close> result means that the
  connection was opened, the backends were listed, every ordinal was read, and the
  removal call, if there was one, succeeded.
\<close>

lemma scaledOutBENodesBySQL_returns_errors:
  assumes "fst (scaledOutBENodesBySQL e cluster cgName R log) = None"
  shows "NewDorisMasterSqlDB e (log @ scaledOutReads e cluster) (scaledOutDBConf e cluster log) = None \<and>
         (\<exists>bs. GetBackendsByCGName e
                  (log @ scaledOutReads e cluster @
                     [Call_NewDorisMasterSqlDB (scaledOutDBConf e cluster log) None]) cgName = Inr bs \<and>
               ordinalsResolved bs \<and>
               (nodesFrom (sint R) bs = [] \<or>
                DropBE e (log @ scaledOutReads e cluster @
                            [Call_NewDorisMasterSqlDB (scaledOutDBConf e cluster log) None,
                             Call_GetBackendsByCGName cgName (Inr bs)])
                  (nodesFrom (sint R) bs) = None))"
proof -
  from assms have conn:
    "NewDorisMasterSqlDB e (log @ scaledOutReads e cluster) (scaledOutDBConf e cluster log) = None"
    by (simp add: scaledOutBENodesBySQL_unfold split: option.splits)
  with assms obtain bs where got: "GetBackendsByCGName e
                  (log @ scaledOutReads e cluster @
                     [Call_NewDorisMasterSqlDB (scaledOutDBConf e cluster log) None]) cgName = Inr bs"
    by (auto simp: scaledOutBENodesBySQL_unfold split: sum.splits)
  have res: "ordinalsResolved bs"
  proof (rule ccontr)
    assume "\<not> ordinalsResolved bs"
    then obtain err where "dropNodesLoop bs R [] = Inl err"
      using dropNodesLoop_unresolved by blast
    with assms conn got show False by (simp add: scaledOutBENodesBySQL_unfold)
  qed
  then have "dropNodesLoop bs R [] = Inr (nodesFrom (sint R) bs)"
    using dropNodesLoop_resolved [of bs R "[]"] by simp
  with assms conn got have "nodesFrom (sint R) bs = [] \<or>
      DropBE e (log @ scaledOutReads e cluster @
                  [Call_NewDorisMasterSqlDB (scaledOutDBConf e cluster log) None,
                   Call_GetBackendsByCGName cgName (Inr bs)])
        (nodesFrom (sint R) bs) = None"
    by (auto simp: scaledOutBENodesBySQL_unfold Let_def split: if_splits)
  with conn got res show ?thesis by blast
qed

subsection \<open>Volume claims that are kept and deleted\<close>

lemma DeletePVC_calls_append:
  "DeletePVC_calls (xs @ ys) = DeletePVC_calls xs @ DeletePVC_calls ys"
  by (induction xs rule: DeletePVC_calls.induct) auto

lemma deletePVCLoop_calls:
  "\<exists>new. snd (deletePVCLoop e pvcMap labels merged log) = log @ new \<and>
         DeletePVC_calls new = map (\<lambda>(n, claim). Name claim) pvcMap"
proof (induction pvcMap arbitrary: merged log)
  case Nil
  then show ?case by simp
next
  case (Cons entry pvcMap)
  obtain n claim where entry: "entry = (n, claim)" by (cases entry)
  show ?case
  proof (cases "DeletePVC e log (Namespace claim) (Name claim) labels")
    case None
    from Cons [of merged "log @ [Call_DeletePVC (Namespace claim) (Name claim) labels None]"]
    obtain new where "snd (deletePVCLoop e pvcMap labels merged
        (log @ [Call_DeletePVC (Namespace claim) (Name claim) labels None])) =
        (log @ [Call_DeletePVC (Namespace claim) (Name claim) labels None]) @ new"
      and "DeletePVC_calls new = map (\<lambda>(n, claim). Name claim) pvcMap"
      by blast
    with None entry show ?thesis by simp
  next
    case (Some err)
    let ?log = "log @ [Call_DeletePVC (Namespace claim) (Name claim) labels (Some err),
                      Call_Event EventWarning PVCDeleteFailed (ErrorString err)]"
    from Cons [of "MergeError e merged err" ?log]
    obtain new where "snd (deletePVCLoop e pvcMap labels (MergeError e merged err) ?log) = ?log @ new"
      and "DeletePVC_calls new = map (\<lambda>(n, claim). Name claim) pvcMap"
      by blast
    with Some entry show ?thesis by simp
  qed
qed

lemma set_update_subset: "set (AList.update k v al) \<subseteq> insert (k, v) (set al)"
  by (induction al) auto

lemma keyed_update: "keyed m \<Longrightarrow> keyed (AList.update (Name item) item m)"
  using set_update_subset [of "Name item" item m]
  by (auto simp: keyed_def distinct_update)

lemma buildPVCMap_keys:
  "keyed m \<Longrightarrow> keyed (buildPVCMap items m) \<and>
     fst ` set (buildPVCMap items m) = fst ` set m \<union> Name ` set items"
proof (induction items arbitrary: m)
  case Nil
  then show ?case by simp
next
  case (Cons item items)
  from Cons.prems have "keyed (AList.update (Name item) item m)" by (rule keyed_update)
  from Cons.IH [OF this] show ?case by (auto simp: dom_update)
qed

lemma deleteReserved_filter:
  "deleteReserved names m = filter (\<lambda>(k, v). k \<notin> set names) m"
proof (induction names arbitrary: m)
  case Nil
  then show ?case by simp
next
  case (Cons n names)
  have "filter (\<lambda>(k, v). k \<notin> set names) (AList.delete n m) =
        filter (\<lambda>(k, v). k \<notin> set (n # names)) m"
    by (induction m) auto
  with Cons show ?case by simp
qed

lemma keyed_names:
  "keyed m \<Longrightarrow> map (\<lambda>(n, claim). Name claim) m = map fst m"
  by (induction m) (auto simp: keyed_def)

lemma keyed_filter: "keyed m \<Longrightarrow> keyed (filter P m)"
  by (auto simp: keyed_def distinct_map_filter)

lemma length_reservePVCNames:
  "length (reservePVCNames e stsName replicas paths) = nat replicas * (length paths + 1)"
proof -
  have "\<And>n. length (concat (map (\<lambda>i. BuildPVCName e stsName (Itoa (int i)) (LogStoreName e) #
                       map (\<lambda>j. BuildPVCName e stsName (Itoa (int i))
                                  (StorageStorePreName e @ Itoa (int j)))
                           [0..<length paths]) [0..<n])) = n * (length paths + 1)"
    subgoal for n by (induction n) (simp_all add: length_concat)
    done
  then show ?thesis by (simp add: reservePVCNames_def)
qed

lemma set_reservePVCNames:
  "set (reservePVCNames e stsName replicas paths) =
     {BuildPVCName e stsName (Itoa (int i)) (LogStoreName e) | i. i < nat replicas} \<union>
     {BuildPVCName e stsName (Itoa (int i)) (StorageStorePreName e @ Itoa (int j)) | i j.
        i < nat replicas \<and> j < length paths}"
  by (auto simp: reservePVCNames_def)

text \<open>
  Claim C7. Let the group of the status be in the specification, with a replica count
  \<open>r\<close>, and let the volume claims labelled for the group be listed. The list of
  names that \<^verbatim>\<open>ClearStatefulsetUnusedPVCs\<close> reserves has \<open>r\<close> times the number of
  storage paths plus \<open>r\<close> entries: for every ordinal below \<open>r\<close> the name of the
  log volume and, for every index of a storage path, the name of that storage volume,
  each built by \<^verbatim>\<open>BuildPVCName\<close> from the name of the StatefulSet, the ordinal and the
  tag of the volume. When the phase is \<open>Suspended\<close> or \<open>SuspendFailed\<close> or \<open>r\<close> is 0,
  no deletion is attempted. Otherwise a deletion is attempted, once, for every listed
  claim whose name is not reserved, and for no other.
\<close>

theorem ClearStatefulsetUnusedPVCs_retains:
  assumes cg: "findCG (Spec_ComputeGroups ddc) (ComputeGroupStatus.UniqueId cgs) None = Some c"
    and repl: "ComputeGroup.Replicas c = Some r"
    and list: "K8sclient_List_PVC e log (Namespace ddc)
                 (newCGPodsSelector e (Name ddc) (ComputeGroupStatus.UniqueId cgs)) = Inr items"
    and paths: "paths = getCacheMaxSizeAndPaths e
                 (GetConfigValuesFromConfigMaps e
                    (log @ [Call_List_PVC (Namespace ddc)
                              (newCGPodsSelector e (Name ddc) (ComputeGroupStatus.UniqueId cgs))
                              (Inr items)])
                    (Namespace ddc) (BE_RESOLVEKEY e) (CommonSpec_ConfigMaps c))"
    and reserved: "reserved = reservePVCNames e (GetCGStatefulsetName e ddc c) (sint r) paths"
  shows "\<exists>res new. ClearStatefulsetUnusedPVCs e ddc cgs log = Inr (res, log @ new) \<and>
           (if Phase cgs = Suspended \<or> Phase cgs = SuspendFailed \<or> sint r = 0
            then DeletePVC_calls new = []
            else set (DeletePVC_calls new) = Name ` set items - set reserved \<and>
                 distinct (DeletePVC_calls new)) \<and>
           length reserved = nat (sint r) * length paths + nat (sint r) \<and>
           set reserved =
             {BuildPVCName e (GetCGStatefulsetName e ddc c) (Itoa (int i)) (LogStoreName e) | i.
                i < nat (sint r)} \<union>
             {BuildPVCName e (GetCGStatefulsetName e ddc c) (Itoa (int i))
                (StorageStorePreName e @ Itoa (int j)) | i j.
                i < nat (sint r) \<and> j < length paths}"
proof -
  let ?labels = "newCGPodsSelector e (Name ddc) (ComputeGroupStatus.UniqueId cgs)"
  let ?log1 = "log @ [Call_List_PVC (Namespace ddc) ?labels (Inr items)]"
  let ?log2 = "?log1 @ [Call_GetConfigValuesFromConfigMaps (Namespace ddc) (BE_RESOLVEKEY e)
                          (CommonSpec_ConfigMaps c)]"
  let ?left = "deleteReserved reserved (buildPVCMap items [])"
  have facts: "length reserved = nat (sint r) * length paths + nat (sint r)"
    "set reserved =
       {BuildPVCName e (GetCGStatefulsetName e ddc c) (Itoa (int i)) (LogStoreName e) | i.
          i < nat (sint r)} \<union>
       {BuildPVCName e (GetCGStatefulsetName e ddc c) (Itoa (int i))
          (StorageStorePreName e @ Itoa (int j)) | i j.
          i < nat (sint r) \<and> j < length paths}"
    by (simp_all add: reserved length_reservePVCNames set_reservePVCNames)
  show ?thesis
  proof (cases "Phase cgs = Suspended \<or> Phase cgs = SuspendFailed \<or> sint r = 0")
    case True
    with cg repl list have "ClearStatefulsetUnusedPVCs e ddc cgs log = Inr (None, ?log2)"
      by (simp add: ClearStatefulsetUnusedPVCs_def Let_def)
    with True facts show ?thesis by simp
  next
    case False
    with cg repl list paths reserved have run: "ClearStatefulsetUnusedPVCs e ddc cgs log =
        Inr (deletePVCLoop e ?left ?labels None ?log2)"
      by (simp add: ClearStatefulsetUnusedPVCs_def Let_def)
    from deletePVCLoop_calls [of e ?left ?labels None ?log2]
    obtain new where new: "snd (deletePVCLoop e ?left ?labels None ?log2) = ?log2 @ new"
      "DeletePVC_calls new = map (\<lambda>(n, claim). Name claim) ?left"
      by blast
    have "keyed []" by (simp add: keyed_def)
    then have built: "keyed (buildPVCMap items [])"
      "fst ` set (buildPVCMap items []) = Name ` set items"
      using buildPVCMap_keys [of "[]" items] by simp_all
    have left: "?left = filter (\<lambda>(k, v). k \<notin> set reserved) (buildPVCMap items [])"
      by (rule deleteReserved_filter)
    with built have kl: "keyed ?left" by (simp add: keyed_filter)
    with new have calls: "DeletePVC_calls new = map fst ?left" by (simp add: keyed_names)
    from kl have "distinct (map fst ?left)" by (simp add: keyed_def)
    moreover have "set (map fst ?left) = Name ` set items - set reserved"
      using built(2) by (auto simp: left) force+
    ultimately have "set (DeletePVC_calls new) = Name ` set items - set reserved"
      "distinct (DeletePVC_calls new)"
      using calls by simp_all
    moreover from run new have "ClearStatefulsetUnusedPVCs e ddc cgs log =
        Inr (fst (deletePVCLoop e ?left ?labels None ?log2), ?log2 @ new)"
      by (metis prod.collapse)
    ultimately show ?thesis using False facts by (simp add: DeletePVC_calls_append)
  qed
qed

text \<open>
  Three replicas and one storage path: six names are reserved, and of the eight claims
  listed the two of ordinal 3 are deleted.
\<close>

theorem ClearStatefulsetUnusedPVCs_retains_witness:
  "findCG (Spec_ComputeGroups (ddcTwo Ready)) (ComputeGroupStatus.UniqueId (status0 ''cg1'' Ready)) None =
     Some (cg0 ''cg1'' 3) \<and>
   ComputeGroup.Replicas (cg0 ''cg1'' 3) = Some 3 \<and>
   K8sclient_List_PVC envPVC [] (Namespace (ddcTwo Ready))
     (newCGPodsSelector envPVC (Name (ddcTwo Ready))
        (ComputeGroupStatus.UniqueId (status0 ''cg1'' Ready))) =
     Inr [pvc ''be-log-d-cg1-0'', pvc ''be-storage0-d-cg1-0'',
          pvc ''be-log-d-cg1-1'', pvc ''be-storage0-d-cg1-1'',
          pvc ''be-log-d-cg1-2'', pvc ''be-storage0-d-cg1-2'',
          pvc ''be-log-d-cg1-3'', pvc ''be-storage0-d-cg1-3''] \<and>
   reservePVCNames envPVC (GetCGStatefulsetName envPVC (ddcTwo Ready) (cg0 ''cg1'' 3)) (sint (3 :: int32))
     [''/opt/storage''] =
     [''be-log-d-cg1-0'', ''be-storage0-d-cg1-0'', ''be-log-d-cg1-1'', ''be-storage0-d-cg1-1'',
      ''be-log-d-cg1-2'', ''be-storage0-d-cg1-2''] \<and>
   (\<exists>res new. ClearStatefulsetUnusedPVCs envPVC (ddcTwo Ready) (status0 ''cg1'' Ready) [] =
        Inr (res, [] @ new) \<and>
      set (DeletePVC_calls new) = {''be-log-d-cg1-3'', ''be-storage0-d-cg1-3''})"
proof -
  let ?items = "[pvc ''be-log-d-cg1-0'', pvc ''be-storage0-d-cg1-0'',
          pvc ''be-log-d-cg1-1'', pvc ''be-storage0-d-cg1-1'',
          pvc ''be-log-d-cg1-2'', pvc ''be-storage0-d-cg1-2'',
          pvc ''be-log-d-cg1-3'', pvc ''be-storage0-d-cg1-3'']"
  let ?reserved = "[''be-log-d-cg1-0'', ''be-storage0-d-cg1-0'', ''be-log-d-cg1-1'',
      ''be-storage0-d-cg1-1'', ''be-log-d-cg1-2'', ''be-storage0-d-cg1-2'']"
  have h1: "findCG (Spec_ComputeGroups (ddcTwo Ready))
              (ComputeGroupStatus.UniqueId (status0 ''cg1'' Ready)) None = Some (cg0 ''cg1'' 3)"
    by (simp add: envPVC_def env0_def pvc_def ddcTwo_def ddc0_def cg0_def status0_def)
  have h2: "ComputeGroup.Replicas (cg0 ''cg1'' 3) = Some 3"
    by (simp add: envPVC_def env0_def pvc_def ddcTwo_def ddc0_def cg0_def status0_def)
  have h3: "K8sclient_List_PVC envPVC [] (Namespace (ddcTwo Ready))
     (newCGPodsSelector envPVC (Name (ddcTwo Ready))
        (ComputeGroupStatus.UniqueId (status0 ''cg1'' Ready))) = Inr ?items"
    by (simp add: envPVC_def env0_def pvc_def ddcTwo_def ddc0_def cg0_def status0_def)
  have h4: "[''/opt/storage''] = getCacheMaxSizeAndPaths envPVC
                 (GetConfigValuesFromConfigMaps envPVC
                    ([] @ [Call_List_PVC (Namespace (ddcTwo Ready))
                              (newCGPodsSelector envPVC (Name (ddcTwo Ready))
                                 (ComputeGroupStatus.UniqueId (status0 ''cg1'' Ready)))
                              (Inr ?items)])
                    (Namespace (ddcTwo Ready)) (BE_RESOLVEKEY envPVC)
                    (CommonSpec_ConfigMaps (cg0 ''cg1'' 3)))"
    by (simp add: envPVC_def env0_def pvc_def ddcTwo_def ddc0_def cg0_def status0_def)
  have h5': "reservePVCNames envPVC (GetCGStatefulsetName envPVC (ddcTwo Ready) (cg0 ''cg1'' 3))
               (sint (3 :: int32)) [''/opt/storage''] = ?reserved"
    by (simp add: reservePVCNames_def envPVC_def env0_def pvc_def ddcTwo_def ddc0_def cg0_def status0_def go_defs upt_rec)
  then have h5: "?reserved = reservePVCNames envPVC
      (GetCGStatefulsetName envPVC (ddcTwo Ready) (cg0 ''cg1'' 3)) (sint (3 :: int32)) [''/opt/storage'']"
    by simp
  have ph: "\<not> (Phase (status0 ''cg1'' Ready) = Suspended \<or>
               Phase (status0 ''cg1'' Ready) = SuspendFailed \<or> sint (3 :: int32) = 0)"
    by (simp add: envPVC_def env0_def pvc_def ddcTwo_def ddc0_def cg0_def status0_def)
  have diff: "Name ` set ?items - set ?reserved = {''be-log-d-cg1-3'', ''be-storage0-d-cg1-3''}"
    by (simp add: pvc_def insert_Diff_if)
  from ClearStatefulsetUnusedPVCs_retains [OF h1 h2 h3 h4 h5] ph diff
  have "\<exists>res new. ClearStatefulsetUnusedPVCs envPVC (ddcTwo Ready) (status0 ''cg1'' Ready) [] =
        Inr (res, [] @ new) \<and>
      set (DeletePVC_calls new) = {''be-log-d-cg1-3'', ''be-storage0-d-cg1-3''}"
    by (simp only: if_False) blast
  with h1 h2 h3 h5' show ?thesis by blast
qed

text \<open>The same claims with the group suspended: nothing is deleted.\<close>

lemma ClearStatefulsetUnusedPVCs_suspended:
  "DeletePVC_calls (case ClearStatefulsetUnusedPVCs envPVC (ddcTwo Suspended)
                           (status0 ''cg1'' Suspended) [] of
                      Inl p \<Rightarrow> [] | Inr (res, log') \<Rightarrow> log') = []"
  by (simp add: ClearStatefulsetUnusedPVCs_def Let_def envPVC_def env0_def pvc_def ddcTwo_def ddc0_def cg0_def status0_def)

subsection \<open>Teardown of a group that left the specification\<close>

lemma splitCGs_filter:
  "splitCGs statuses spec clearCGs eCGs =
     (clearCGs @ filter (\<lambda>s. \<not> list_ex (\<lambda>cg. ComputeGroupStatus.UniqueId s = ComputeGroup.UniqueId cg) spec) statuses,
      eCGs @ filter (\<lambda>s. list_ex (\<lambda>cg. ComputeGroupStatus.UniqueId s = ComputeGroup.UniqueId cg) spec) statuses)"
  by (induction statuses arbitrary: clearCGs eCGs) auto

lemma deletePVCLoop_log:
  "\<exists>res new. deletePVCLoop e pvcMap labels merged log = (res, log @ new)"
  using deletePVCLoop_calls [of e pvcMap labels merged log] by (metis prod.collapse)

lemma findCG_in:
  "findCG spec uid acc = Some c \<Longrightarrow> c \<in> set spec \<or> acc = Some c"
  by (induction spec arbitrary: acc) (auto split: if_splits)

lemma ClearStatefulsetUnusedPVCs_returns:
  assumes "replicasSet ddc"
  shows "\<exists>res new. ClearStatefulsetUnusedPVCs e ddc cgs log = Inr (res, log @ new)"
proof -
  let ?labels = "newCGPodsSelector e (Name ddc) (ComputeGroupStatus.UniqueId cgs)"
  show ?thesis
  proof (cases "K8sclient_List_PVC e log (Namespace ddc) ?labels")
    case (Inl err)
    then show ?thesis by (simp add: ClearStatefulsetUnusedPVCs_def Let_def)
  next
    case (Inr items)
    note listed = this
    let ?c1 = "Call_List_PVC (Namespace ddc) ?labels (Inr items)"
    show ?thesis
    proof (cases "findCG (Spec_ComputeGroups ddc) (ComputeGroupStatus.UniqueId cgs) None")
      case None
      from deletePVCLoop_log [of e "buildPVCMap items []" ?labels None "log @ [?c1]"]
      obtain res new where
        "deletePVCLoop e (buildPVCMap items []) ?labels None (log @ [?c1]) = (res, (log @ [?c1]) @ new)"
        by blast
      with None listed have "ClearStatefulsetUnusedPVCs e ddc cgs log = Inr (res, log @ (?c1 # new))"
        by (simp add: ClearStatefulsetUnusedPVCs_def Let_def)
      then show ?thesis by blast
    next
      case (Some c)
      then have "c \<in> set (Spec_ComputeGroups ddc)" using findCG_in by fastforce
      with assms obtain r where r: "ComputeGroup.Replicas c = Some r"
        by (auto simp: replicasSet_def list_all_iff)
      let ?c2 = "Call_GetConfigValuesFromConfigMaps (Namespace ddc) (BE_RESOLVEKEY e)
                   (CommonSpec_ConfigMaps c)"
      let ?left = "deleteReserved (reservePVCNames e (GetCGStatefulsetName e ddc c) (sint r)
          (getCacheMaxSizeAndPaths e (GetConfigValuesFromConfigMaps e (log @ [?c1]) (Namespace ddc)
             (BE_RESOLVEKEY e) (CommonSpec_ConfigMaps c)))) (buildPVCMap items [])"
      from deletePVCLoop_log [of e ?left ?labels None "log @ [?c1, ?c2]"]
      obtain res new where
        "deletePVCLoop e ?left ?labels None (log @ [?c1, ?c2]) = (res, (log @ [?c1, ?c2]) @ new)"
        by blast
      with Some r listed have "ClearStatefulsetUnusedPVCs e ddc cgs log =
          Inr (if Phase cgs = Suspended \<or> Phase cgs = SuspendFailed \<or> sint r = 0 then None else res,
               log @ (if Phase cgs = Suspended \<or> Phase cgs = SuspendFailed \<or> sint r = 0
                      then [?c1, ?c2] else ?c1 # ?c2 # new))"
        by (simp add: ClearStatefulsetUnusedPVCs_def Let_def)
      then show ?thesis by blast
    qed
  qed
qed

lemma clearPVCsLoop_returns:
  assumes "replicasSet ddc"
  shows "\<exists>new. clearPVCsLoop e ddc cs log = Inr (log @ new)"
proof (induction cs arbitrary: log)
  case Nil
  then show ?case by simp
next
  case (Cons cgs cs)
  from ClearStatefulsetUnusedPVCs_returns [OF assms, of e cgs log]
  obtain res new1 where 1: "ClearStatefulsetUnusedPVCs e ddc cgs log = Inr (res, log @ new1)"
    by blast
  from Cons [of "log @ new1"] obtain new2 where
    "clearPVCsLoop e ddc cs (log @ new1) = Inr ((log @ new1) @ new2)" by blast
  with 1 show ?case by simp
qed


text \<open>One round of the second loop of \<^verbatim>\<open>ClearResources\<close>.\<close>

lemma clearLoop_step:
  fixes e ddc s log
  defines "r1 \<equiv> DeleteStatefulset e log (Namespace ddc) (StatefulsetName s)"
  defines "log1 \<equiv> log @ [Call_DeleteStatefulset (Namespace ddc) (StatefulsetName s) r1] @
                   (case r1 of
                      Some err \<Rightarrow> [Call_Event EventWarning CGStatefulsetDeleteFailed (ErrorString err)]
                    | None \<Rightarrow> [])"
  defines "r2 \<equiv> DeleteService e log1 (Namespace ddc) (ServiceName s)"
  shows "\<exists>new1.
     Call_DeleteStatefulset (Namespace ddc) (StatefulsetName s) r1 \<in> set new1 \<and>
     Call_DeleteService (Namespace ddc) (ServiceName s) r2 \<in> set new1 \<and>
     (if r1 = None \<and> r2 = None
      then clearLoop e ddc (s # rest) eCGs log = clearLoop e ddc rest eCGs (log @ new1) \<and>
           (\<exists>log2. \<forall>err. fst (scaledOutBENodesBySQL e ddc
                        (ReplaceAll (ComputeGroupStatus.UniqueId s) CHR ''_'' CHR ''-'') 0 log2) = Some err \<longrightarrow>
              Call_Event EventWarning CGSqlExecFailed
                (''computeGroupSync dropCGBySQLClient failed: '' @ ErrorString err) \<in> set new1)
      else clearLoop e ddc (s # rest) eCGs log = clearLoop e ddc rest (eCGs @ [s]) (log @ new1))"
proof -
  define ev1 where "ev1 = (case r1 of
                      Some err \<Rightarrow> [Call_Event EventWarning CGStatefulsetDeleteFailed (ErrorString err)]
                    | None \<Rightarrow> [])"
  define ev2 where "ev2 = (case r2 of
                      Some err \<Rightarrow> [Call_Event EventWarning CGServiceDeleteFailed (ErrorString err)]
                    | None \<Rightarrow> [])"
  define log2 where "log2 = log1 @ [Call_DeleteService (Namespace ddc) (ServiceName s) r2] @ ev2"
  define d where "d = [Call_DeleteStatefulset (Namespace ddc) (StatefulsetName s) r1] @ ev1 @
                      [Call_DeleteService (Namespace ddc) (ServiceName s) r2] @ ev2"
  define cgName where "cgName = ReplaceAll (ComputeGroupStatus.UniqueId s) CHR ''_'' CHR ''-''"
  have log2: "log2 = log @ d"
    by (simp add: log2_def d_def log1_def ev1_def)
  have unfolded: "clearLoop e ddc (s # rest) eCGs log =
      (if \<not> (r1 = None \<and> r2 = None) then clearLoop e ddc rest (eCGs @ [s]) log2
       else (case scaledOutBENodesBySQL e ddc cgName 0 log2 of
               (Some err, log3) \<Rightarrow>
                 clearLoop e ddc rest eCGs
                   (log3 @ [Call_Event EventWarning CGSqlExecFailed
                              (''computeGroupSync dropCGBySQLClient failed: '' @ ErrorString err)])
             | (None, log3) \<Rightarrow> clearLoop e ddc rest eCGs log3))"
    unfolding r1_def log1_def r2_def ev2_def log2_def cgName_def
    by (simp only: clearLoop.simps Let_def)
  show ?thesis
  proof (cases "r1 = None \<and> r2 = None")
    case False
    with unfolded have "clearLoop e ddc (s # rest) eCGs log = clearLoop e ddc rest (eCGs @ [s]) (log @ d)"
      by (simp add: log2 del: clearLoop.simps)
    moreover have "Call_DeleteStatefulset (Namespace ddc) (StatefulsetName s) r1 \<in> set d"
      "Call_DeleteService (Namespace ddc) (ServiceName s) r2 \<in> set d"
      by (simp_all add: d_def)
    ultimately show ?thesis using False
      by (intro exI [of _ d]) (auto simp del: clearLoop.simps)
  next
    case True
    obtain r log3 where drain: "scaledOutBENodesBySQL e ddc cgName 0 log2 = (r, log3)"
      by (cases "scaledOutBENodesBySQL e ddc cgName 0 log2")
    from scaledOutBENodesBySQL_log [of e ddc cgName 0 log2] drain
    obtain new3 where new3: "log3 = log @ d @ new3" by (auto simp: log2)
    define ev3 where "ev3 = (case r of
        Some err \<Rightarrow> [Call_Event EventWarning CGSqlExecFailed
                       (''computeGroupSync dropCGBySQLClient failed: '' @ ErrorString err)]
      | None \<Rightarrow> [])"
    from unfolded True drain new3
    have run: "clearLoop e ddc (s # rest) eCGs log = clearLoop e ddc rest eCGs (log @ (d @ new3 @ ev3))"
      by (cases r) (simp_all add: ev3_def del: clearLoop.simps)
    have "Call_DeleteStatefulset (Namespace ddc) (StatefulsetName s) r1 \<in> set (d @ new3 @ ev3)"
      "Call_DeleteService (Namespace ddc) (ServiceName s) r2 \<in> set (d @ new3 @ ev3)"
      by (simp_all add: d_def)
    moreover have "\<forall>err. fst (scaledOutBENodesBySQL e ddc cgName 0 log2) = Some err \<longrightarrow>
        Call_Event EventWarning CGSqlExecFailed
          (''computeGroupSync dropCGBySQLClient failed: '' @ ErrorString err) \<in> set (d @ new3 @ ev3)"
      using drain by (auto simp: ev3_def)
    ultimately show ?thesis
      using True run unfolding cgName_def
      by (intro exI [of _ "d @ new3 @ ev3"]) (auto simp del: clearLoop.simps)
  qed
qed


lemma clearLoop_props:
  "\<exists>retained new. clearLoop e ddc cs eCGs log = (eCGs @ retained, log @ new) \<and>
     set retained \<subseteq> set cs \<and>
     (\<forall>s\<in>set cs. s \<notin> set retained \<longrightarrow>
        Call_DeleteStatefulset (Namespace ddc) (StatefulsetName s) None \<in> set new \<and>
        Call_DeleteService (Namespace ddc) (ServiceName s) None \<in> set new) \<and>
     (\<forall>s\<in>set cs. neverDeleted e ddc s \<longrightarrow> s \<in> set retained) \<and>
     (\<forall>s\<in>set cs. alwaysDeleted e ddc s \<longrightarrow>
        s \<notin> set retained \<and> (drainAlwaysFails e ddc s \<longrightarrow> dropFailedEvents new \<noteq> []))"
proof (induction cs arbitrary: eCGs log)
  case Nil
  then show ?case by simp
next
  case (Cons c cs)
  define r1 where "r1 = DeleteStatefulset e log (Namespace ddc) (StatefulsetName c)"
  define log1 where "log1 = log @ [Call_DeleteStatefulset (Namespace ddc) (StatefulsetName c) r1] @
                   (case r1 of
                      Some err \<Rightarrow> [Call_Event EventWarning CGStatefulsetDeleteFailed (ErrorString err)]
                    | None \<Rightarrow> [])"
  define r2 where "r2 = DeleteService e log1 (Namespace ddc) (ServiceName c)"
  from clearLoop_step [of ddc c e log cs eCGs]
  obtain new1 where ds: "Call_DeleteStatefulset (Namespace ddc) (StatefulsetName c) r1 \<in> set new1"
    and dv: "Call_DeleteService (Namespace ddc) (ServiceName c) r2 \<in> set new1"
    and step: "if r1 = None \<and> r2 = None
      then clearLoop e ddc (c # cs) eCGs log = clearLoop e ddc cs eCGs (log @ new1) \<and>
           (\<exists>log2. \<forall>err. fst (scaledOutBENodesBySQL e ddc
                        (ReplaceAll (ComputeGroupStatus.UniqueId c) CHR ''_'' CHR ''-'') 0 log2) = Some err \<longrightarrow>
              Call_Event EventWarning CGSqlExecFailed
                (''computeGroupSync dropCGBySQLClient failed: '' @ ErrorString err) \<in> set new1)
      else clearLoop e ddc (c # cs) eCGs log = clearLoop e ddc cs (eCGs @ [c]) (log @ new1)"
    unfolding r1_def log1_def r2_def by blast
  have ev_in: "\<And>msg xs. Call_Event EventWarning CGSqlExecFailed msg \<in> set xs \<Longrightarrow> dropFailedEvents xs \<noteq> []"
    subgoal for msg xs by (induction xs rule: dropFailedEvents.induct) (auto split: if_splits)
    done
  have ev_app: "\<And>xs ys. dropFailedEvents (xs @ ys) = dropFailedEvents xs @ dropFailedEvents ys"
    subgoal for xs ys by (induction xs rule: dropFailedEvents.induct) auto
    done
  show ?case
  proof (cases "r1 = None \<and> r2 = None")
    case True
    with step have run: "clearLoop e ddc (c # cs) eCGs log = clearLoop e ddc cs eCGs (log @ new1)"
      and ev: "\<exists>log2. \<forall>err. fst (scaledOutBENodesBySQL e ddc
                        (ReplaceAll (ComputeGroupStatus.UniqueId c) CHR ''_'' CHR ''-'') 0 log2) = Some err \<longrightarrow>
              Call_Event EventWarning CGSqlExecFailed
                (''computeGroupSync dropCGBySQLClient failed: '' @ ErrorString err) \<in> set new1"
      by simp_all
    from Cons.IH [of eCGs "log @ new1"] obtain retained new where
      ih: "clearLoop e ddc cs eCGs (log @ new1) = (eCGs @ retained, (log @ new1) @ new)"
        "set retained \<subseteq> set cs"
        "\<forall>s\<in>set cs. s \<notin> set retained \<longrightarrow>
           Call_DeleteStatefulset (Namespace ddc) (StatefulsetName s) None \<in> set new \<and>
           Call_DeleteService (Namespace ddc) (ServiceName s) None \<in> set new"
        "\<forall>s\<in>set cs. neverDeleted e ddc s \<longrightarrow> s \<in> set retained"
        "\<forall>s\<in>set cs. alwaysDeleted e ddc s \<longrightarrow>
           s \<notin> set retained \<and> (drainAlwaysFails e ddc s \<longrightarrow> dropFailedEvents new \<noteq> [])"
      by blast
    have c_not_never: "\<not> neverDeleted e ddc c"
      using True by (auto simp: neverDeleted_def r1_def r2_def)
    have c_always: "alwaysDeleted e ddc c \<Longrightarrow> c \<notin> set retained"
    proof
      assume a: "alwaysDeleted e ddc c" and "c \<in> set retained"
      with ih(2) have "c \<in> set cs" by blast
      with ih(5) a have "c \<notin> set retained" by blast
      with \<open>c \<in> set retained\<close> show False by contradiction
    qed
    have c_fails: "drainAlwaysFails e ddc c \<Longrightarrow> dropFailedEvents new1 \<noteq> []"
    proof -
      assume f: "drainAlwaysFails e ddc c"
      from ev obtain log2 where l2: "\<forall>err. fst (scaledOutBENodesBySQL e ddc
                        (ReplaceAll (ComputeGroupStatus.UniqueId c) CHR ''_'' CHR ''-'') 0 log2) = Some err \<longrightarrow>
              Call_Event EventWarning CGSqlExecFailed
                (''computeGroupSync dropCGBySQLClient failed: '' @ ErrorString err) \<in> set new1"
        by blast
      from f obtain err where "fst (scaledOutBENodesBySQL e ddc
          (ReplaceAll (ComputeGroupStatus.UniqueId c) CHR ''_'' CHR ''-'') 0 log2) = Some err"
        by (auto simp: drainAlwaysFails_def)
      with l2 show ?thesis using ev_in by blast
    qed
    have "clearLoop e ddc (c # cs) eCGs log = (eCGs @ retained, log @ (new1 @ new))"
      using run ih(1) by simp
    moreover have "set retained \<subseteq> set (c # cs)" using ih(2) by auto
    moreover have "\<forall>s\<in>set (c # cs). s \<notin> set retained \<longrightarrow>
        Call_DeleteStatefulset (Namespace ddc) (StatefulsetName s) None \<in> set (new1 @ new) \<and>
        Call_DeleteService (Namespace ddc) (ServiceName s) None \<in> set (new1 @ new)"
      using ih(3) ds dv True by auto
    moreover have "\<forall>s\<in>set (c # cs). neverDeleted e ddc s \<longrightarrow> s \<in> set retained"
      using ih(4) c_not_never by auto
    moreover have "\<forall>s\<in>set (c # cs). alwaysDeleted e ddc s \<longrightarrow>
        s \<notin> set retained \<and> (drainAlwaysFails e ddc s \<longrightarrow> dropFailedEvents (new1 @ new) \<noteq> [])"
      using ih(5) c_always c_fails by (auto simp: ev_app)
    ultimately show ?thesis by blast
  next
    case False
    with step have run: "clearLoop e ddc (c # cs) eCGs log = clearLoop e ddc cs (eCGs @ [c]) (log @ new1)"
      by simp
    from Cons.IH [of "eCGs @ [c]" "log @ new1"] obtain retained new where
      ih: "clearLoop e ddc cs (eCGs @ [c]) (log @ new1) = ((eCGs @ [c]) @ retained, (log @ new1) @ new)"
        "set retained \<subseteq> set cs"
        "\<forall>s\<in>set cs. s \<notin> set retained \<longrightarrow>
           Call_DeleteStatefulset (Namespace ddc) (StatefulsetName s) None \<in> set new \<and>
           Call_DeleteService (Namespace ddc) (ServiceName s) None \<in> set new"
        "\<forall>s\<in>set cs. neverDeleted e ddc s \<longrightarrow> s \<in> set retained"
        "\<forall>s\<in>set cs. alwaysDeleted e ddc s \<longrightarrow>
           s \<notin> set retained \<and> (drainAlwaysFails e ddc s \<longrightarrow> dropFailedEvents new \<noteq> [])"
      by blast
    have c_not_always: "\<not> alwaysDeleted e ddc c"
      using False by (auto simp: alwaysDeleted_def r1_def r2_def)
    have "clearLoop e ddc (c # cs) eCGs log = (eCGs @ (c # retained), log @ (new1 @ new))"
      using run ih(1) by simp
    moreover have "set (c # retained) \<subseteq> set (c # cs)" using ih(2) by auto
    moreover have "\<forall>s\<in>set (c # cs). s \<notin> set (c # retained) \<longrightarrow>
        Call_DeleteStatefulset (Namespace ddc) (StatefulsetName s) None \<in> set (new1 @ new) \<and>
        Call_DeleteService (Namespace ddc) (ServiceName s) None \<in> set (new1 @ new)"
      using ih(3) by auto
    moreover have "\<forall>s\<in>set (c # cs). neverDeleted e ddc s \<longrightarrow> s \<in> set (c # retained)"
      using ih(4) by auto
    moreover have "\<forall>s\<in>set (c # cs). alwaysDeleted e ddc s \<longrightarrow>
        s \<notin> set (c # retained) \<and> (drainAlwaysFails e ddc s \<longrightarrow> dropFailedEvents (new1 @ new) \<noteq> [])"
      using ih(5) c_not_always by (auto simp: ev_app)
    ultimately show ?thesis by blast
  qed
qed


lemma dropFailedEvents_append:
  "dropFailedEvents (xs @ ys) = dropFailedEvents xs @ dropFailedEvents ys"
  by (induction xs rule: dropFailedEvents.induct) auto

lemma ClearResources_props:
  assumes "replicasSet ddc"
  shows "\<exists>retained new. 
     ClearResources e ddc log =
       Inr ((True, None),
            ddc\<lparr>Status_ComputeGroupStatuses :=
                  filter (inSpec ddc) (Status_ComputeGroupStatuses ddc) @ retained\<rparr>,
            log @ new) \<and>
     set retained \<subseteq> {s \<in> set (Status_ComputeGroupStatuses ddc). \<not> inSpec ddc s} \<and>
     (\<forall>s\<in>set (Status_ComputeGroupStatuses ddc). \<not> inSpec ddc s \<longrightarrow> s \<notin> set retained \<longrightarrow>
        Call_DeleteStatefulset (Namespace ddc) (StatefulsetName s) None \<in> set new \<and>
        Call_DeleteService (Namespace ddc) (ServiceName s) None \<in> set new) \<and>
     (\<forall>s\<in>set (Status_ComputeGroupStatuses ddc). \<not> inSpec ddc s \<longrightarrow> neverDeleted e ddc s \<longrightarrow>
        s \<in> set retained) \<and>
     (\<forall>s\<in>set (Status_ComputeGroupStatuses ddc). \<not> inSpec ddc s \<longrightarrow> alwaysDeleted e ddc s \<longrightarrow>
        s \<notin> set retained \<and> (drainAlwaysFails e ddc s \<longrightarrow> dropFailedEvents new \<noteq> []))"
proof -
  let ?statuses = "Status_ComputeGroupStatuses ddc"
  let ?clear = "filter (\<lambda>s. \<not> inSpec ddc s) ?statuses"
  let ?e0 = "filter (inSpec ddc) ?statuses"
  have split: "splitCGs ?statuses (Spec_ComputeGroups ddc) [] [] = (?clear, ?e0)"
    by (simp add: splitCGs_filter inSpec_def [abs_def])
  from clearLoop_props [of e ddc ?clear ?e0 log] obtain retained new1 where
    loop: "clearLoop e ddc ?clear ?e0 log = (?e0 @ retained, log @ new1)"
      "set retained \<subseteq> set ?clear"
      "\<forall>s\<in>set ?clear. s \<notin> set retained \<longrightarrow>
         Call_DeleteStatefulset (Namespace ddc) (StatefulsetName s) None \<in> set new1 \<and>
         Call_DeleteService (Namespace ddc) (ServiceName s) None \<in> set new1"
      "\<forall>s\<in>set ?clear. neverDeleted e ddc s \<longrightarrow> s \<in> set retained"
      "\<forall>s\<in>set ?clear. alwaysDeleted e ddc s \<longrightarrow>
         s \<notin> set retained \<and> (drainAlwaysFails e ddc s \<longrightarrow> dropFailedEvents new1 \<noteq> [])"
    by blast
  from clearPVCsLoop_returns [OF assms, of e "?e0 @ retained" "log @ new1"] obtain new2 where
    p1: "clearPVCsLoop e ddc (?e0 @ retained) (log @ new1) = Inr ((log @ new1) @ new2)"
    by blast
  from clearPVCsLoop_returns [OF assms, of e ?clear "(log @ new1) @ new2"] obtain new3 where
    p2: "clearPVCsLoop e ddc ?clear ((log @ new1) @ new2) = Inr (((log @ new1) @ new2) @ new3)"
    by blast
  from split loop(1) p1 p2 have "ClearResources e ddc log =
       Inr ((True, None), ddc\<lparr>Status_ComputeGroupStatuses := ?e0 @ retained\<rparr>,
            log @ (new1 @ new2 @ new3))"
    by (simp add: ClearResources_def)
  moreover have "set retained \<subseteq> {s \<in> set ?statuses. \<not> inSpec ddc s}"
    using loop(2) by auto
  moreover have "\<forall>s\<in>set ?statuses. \<not> inSpec ddc s \<longrightarrow> s \<notin> set retained \<longrightarrow>
        Call_DeleteStatefulset (Namespace ddc) (StatefulsetName s) None \<in> set (new1 @ new2 @ new3) \<and>
        Call_DeleteService (Namespace ddc) (ServiceName s) None \<in> set (new1 @ new2 @ new3)"
    using loop(3) by auto
  moreover have "\<forall>s\<in>set ?statuses. \<not> inSpec ddc s \<longrightarrow> neverDeleted e ddc s \<longrightarrow> s \<in> set retained"
    using loop(4) by auto
  moreover have "\<forall>s\<in>set ?statuses. \<not> inSpec ddc s \<longrightarrow> alwaysDeleted e ddc s \<longrightarrow>
        s \<notin> set retained \<and> (drainAlwaysFails e ddc s \<longrightarrow> dropFailedEvents (new1 @ new2 @ new3) \<noteq> [])"
    using loop(5) by (auto simp: dropFailedEvents_append)
  ultimately show ?thesis by blast
qed

text \<open>
  Claim C8. Let every compute group of the specification have its replica count set, so
  that \<^verbatim>\<open>ClearResources\<close> returns. The statuses it leaves are statuses that were
  there. A status whose identifier is no longer in the specification is missing from
  them only if the calls of this run hold a deletion of its StatefulSet and a deletion
  of its Service that both succeeded; and when the deletion of its StatefulSet or the
  deletion of its Service fails whenever it is tried, the status is among them.
\<close>

theorem ClearResources_retains_until_deleted:
  assumes "replicasSet ddc"
  shows "\<exists>ddc' new.
     ClearResources e ddc log = Inr ((True, None), ddc', log @ new) \<and>
     set (Status_ComputeGroupStatuses ddc') \<subseteq> set (Status_ComputeGroupStatuses ddc) \<and>
     (\<forall>s\<in>set (Status_ComputeGroupStatuses ddc).
        \<not> inSpec ddc s \<and> s \<notin> set (Status_ComputeGroupStatuses ddc') \<longrightarrow>
          Call_DeleteStatefulset (Namespace ddc) (StatefulsetName s) None \<in> set new \<and>
          Call_DeleteService (Namespace ddc) (ServiceName s) None \<in> set new) \<and>
     (\<forall>s\<in>set (Status_ComputeGroupStatuses ddc).
        \<not> inSpec ddc s \<and> neverDeleted e ddc s \<longrightarrow> s \<in> set (Status_ComputeGroupStatuses ddc'))"
proof -
  from ClearResources_props [OF assms, of e log] obtain retained new where
    p: "ClearResources e ddc log =
       Inr ((True, None),
            ddc\<lparr>Status_ComputeGroupStatuses :=
                  filter (inSpec ddc) (Status_ComputeGroupStatuses ddc) @ retained\<rparr>,
            log @ new)"
     "set retained \<subseteq> {s \<in> set (Status_ComputeGroupStatuses ddc). \<not> inSpec ddc s}"
     "\<forall>s\<in>set (Status_ComputeGroupStatuses ddc). \<not> inSpec ddc s \<longrightarrow> s \<notin> set retained \<longrightarrow>
        Call_DeleteStatefulset (Namespace ddc) (StatefulsetName s) None \<in> set new \<and>
        Call_DeleteService (Namespace ddc) (ServiceName s) None \<in> set new"
     "\<forall>s\<in>set (Status_ComputeGroupStatuses ddc). \<not> inSpec ddc s \<longrightarrow> neverDeleted e ddc s \<longrightarrow>
        s \<in> set retained"
    by blast
  let ?ddc' = "ddc\<lparr>Status_ComputeGroupStatuses :=
                  filter (inSpec ddc) (Status_ComputeGroupStatuses ddc) @ retained\<rparr>"
  have "set (Status_ComputeGroupStatuses ?ddc') \<subseteq> set (Status_ComputeGroupStatuses ddc)"
    using p(2) by auto
  moreover have "\<forall>s\<in>set (Status_ComputeGroupStatuses ddc).
        \<not> inSpec ddc s \<and> s \<notin> set (Status_ComputeGroupStatuses ?ddc') \<longrightarrow>
          Call_DeleteStatefulset (Namespace ddc) (StatefulsetName s) None \<in> set new \<and>
          Call_DeleteService (Namespace ddc) (ServiceName s) None \<in> set new"
    using p(3) by auto
  moreover have "\<forall>s\<in>set (Status_ComputeGroupStatuses ddc).
        \<not> inSpec ddc s \<and> neverDeleted e ddc s \<longrightarrow> s \<in> set (Status_ComputeGroupStatuses ?ddc')"
    using p(4) by auto
  ultimately show ?thesis using p(1) by blast
qed

text \<open>
  The Service of the group \<^verbatim>\<open>old_cg\<close> cannot be deleted: its status stays. The second
  run is the same teardown with deletions that succeed.
\<close>

theorem ClearResources_retains_until_deleted_witness:
  "replicasSet ddcGone \<and>
   status0 ''old_cg'' Ready \<in> set (Status_ComputeGroupStatuses ddcGone) \<and>
   \<not> inSpec ddcGone (status0 ''old_cg'' Ready) \<and>
   neverDeleted envServiceStays ddcGone (status0 ''old_cg'' Ready) \<and>
   (\<exists>ddc' new. ClearResources envServiceStays ddcGone [] = Inr ((True, None), ddc', [] @ new) \<and>
      status0 ''old_cg'' Ready \<in> set (Status_ComputeGroupStatuses ddc')) \<and>
   (\<exists>ddc' new. ClearResources env0 ddcGone [] = Inr ((True, None), ddc', [] @ new) \<and>
      set (Status_ComputeGroupStatuses ddc') \<subseteq> set (Status_ComputeGroupStatuses ddcGone))"
proof -
  let ?s = "status0 ''old_cg'' Ready"
  have h: "replicasSet ddcGone"
    by (simp add: replicasSet_def ddcGone_def ddc0_def cg0_def status0_def envServiceStays_def env0_def)
  have h1: "?s \<in> set (Status_ComputeGroupStatuses ddcGone)"
    by (simp add: ddcGone_def ddc0_def cg0_def status0_def envServiceStays_def env0_def)
  have h2: "\<not> inSpec ddcGone ?s"
    by (simp add: inSpec_def ddcGone_def ddc0_def cg0_def status0_def envServiceStays_def env0_def)
  have h3: "neverDeleted envServiceStays ddcGone ?s"
    by (simp add: neverDeleted_def ddcGone_def ddc0_def cg0_def status0_def envServiceStays_def env0_def)
  from ClearResources_retains_until_deleted [OF h, of envServiceStays "[]"] h1 h2 h3
  have a: "\<exists>ddc' new. ClearResources envServiceStays ddcGone [] = Inr ((True, None), ddc', [] @ new) \<and>
      ?s \<in> set (Status_ComputeGroupStatuses ddc')"
    by blast
  from ClearResources_retains_until_deleted [OF h, of env0 "[]"]
  have b: "\<exists>ddc' new. ClearResources env0 ddcGone [] = Inr ((True, None), ddc', [] @ new) \<and>
      set (Status_ComputeGroupStatuses ddc') \<subseteq> set (Status_ComputeGroupStatuses ddcGone)"
    by blast
  from h h1 h2 h3 a b show ?thesis by blast
qed

text \<open>
  Claim C10. Let every compute group of the specification have its replica count set.
  Then \<^verbatim>\<open>ClearResources\<close> returns \<^verbatim>\<open>(true, nil)\<close>, whatever the deletions and the
  drains return. For a status whose identifier is no longer in the specification,
  whose StatefulSet and Service are deleted without an error and whose drain
  (\<^verbatim>\<open>scaledOutBENodesBySQL\<close> with keep amount 0) fails: the status is not among the
  statuses left, and the log holds a warning event of reason \<^verbatim>\<open>CGSqlExecFailed\<close>.
\<close>

theorem ClearResources_drop_failure_not_retried:
  assumes "replicasSet ddc"
  shows "\<exists>ddc' new.
     ClearResources e ddc log = Inr ((True, None), ddc', log @ new) \<and>
     (\<forall>s\<in>set (Status_ComputeGroupStatuses ddc).
        \<not> inSpec ddc s \<and> alwaysDeleted e ddc s \<and> drainAlwaysFails e ddc s \<longrightarrow>
          s \<notin> set (Status_ComputeGroupStatuses ddc') \<and> dropFailedEvents new \<noteq> [])"
proof -
  from ClearResources_props [OF assms, of e log] obtain retained new where
    p: "ClearResources e ddc log =
       Inr ((True, None),
            ddc\<lparr>Status_ComputeGroupStatuses :=
                  filter (inSpec ddc) (Status_ComputeGroupStatuses ddc) @ retained\<rparr>,
            log @ new)"
     "\<forall>s\<in>set (Status_ComputeGroupStatuses ddc). \<not> inSpec ddc s \<longrightarrow> alwaysDeleted e ddc s \<longrightarrow>
        s \<notin> set retained \<and> (drainAlwaysFails e ddc s \<longrightarrow> dropFailedEvents new \<noteq> [])"
    by blast
  let ?ddc' = "ddc\<lparr>Status_ComputeGroupStatuses :=
                  filter (inSpec ddc) (Status_ComputeGroupStatuses ddc) @ retained\<rparr>"
  have "\<forall>s\<in>set (Status_ComputeGroupStatuses ddc).
        \<not> inSpec ddc s \<and> alwaysDeleted e ddc s \<and> drainAlwaysFails e ddc s \<longrightarrow>
          s \<notin> set (Status_ComputeGroupStatuses ?ddc') \<and> dropFailedEvents new \<noteq> []"
    using p(2) by auto
  with p(1) show ?thesis by blast
qed

text \<open>No connection to the master frontend: the status of \<^verbatim>\<open>old_cg\<close> is dropped all the same.\<close>

theorem ClearResources_drop_failure_not_retried_witness:
  "replicasSet ddcGone \<and>
   status0 ''old_cg'' Ready \<in> set (Status_ComputeGroupStatuses ddcGone) \<and>
   \<not> inSpec ddcGone (status0 ''old_cg'' Ready) \<and>
   alwaysDeleted envNoMaster ddcGone (status0 ''old_cg'' Ready) \<and>
   drainAlwaysFails envNoMaster ddcGone (status0 ''old_cg'' Ready) \<and>
   (\<exists>ddc' new. ClearResources envNoMaster ddcGone [] = Inr ((True, None), ddc', [] @ new) \<and>
      status0 ''old_cg'' Ready \<notin> set (Status_ComputeGroupStatuses ddc') \<and>
      dropFailedEvents new \<noteq> [])"
proof -
  let ?s = "status0 ''old_cg'' Ready"
  have h: "replicasSet ddcGone"
    by (simp add: replicasSet_def ddcGone_def ddc0_def cg0_def status0_def envNoMaster_def env0_def)
  have h1: "?s \<in> set (Status_ComputeGroupStatuses ddcGone)"
    by (simp add: ddcGone_def ddc0_def cg0_def status0_def envNoMaster_def env0_def)
  have h2: "\<not> inSpec ddcGone ?s"
    by (simp add: inSpec_def ddcGone_def ddc0_def cg0_def status0_def envNoMaster_def env0_def)
  have h3: "alwaysDeleted envNoMaster ddcGone ?s"
    by (simp add: alwaysDeleted_def ddcGone_def ddc0_def cg0_def status0_def envNoMaster_def env0_def)
  have h4: "drainAlwaysFails envNoMaster ddcGone ?s"
    by (simp add: drainAlwaysFails_def scaledOutBENodesBySQL_def ddcGone_def ddc0_def cg0_def status0_def envNoMaster_def env0_def)
  from ClearResources_drop_failure_not_retried [OF h, of envNoMaster "[]"] h1 h2 h3 h4
  have "\<exists>ddc' new. ClearResources envNoMaster ddcGone [] = Inr ((True, None), ddc', [] @ new) \<and>
      ?s \<notin> set (Status_ComputeGroupStatuses ddc') \<and> dropFailedEvents new \<noteq> []"
    by blast
  with h h1 h2 h3 h4 show ?thesis by blast
qed

text \<open>The identifiers left and the warning events of the two runs.\<close>

lemma ClearResources_teardown_runs:
  "(case ClearResources envNoMaster ddcGone [] of
      Inl p \<Rightarrow> ([], [])
    | Inr (res, ddc', log') \<Rightarrow>
        (map ComputeGroupStatus.UniqueId (Status_ComputeGroupStatuses ddc'), dropFailedEvents log')) =
     ([''cg0''], [''computeGroupSync dropCGBySQLClient failed: no master'']) \<and>
   (case ClearResources envServiceStays ddcGone [] of
      Inl p \<Rightarrow> ([], [])
    | Inr (res, ddc', log') \<Rightarrow>
        (map ComputeGroupStatus.UniqueId (Status_ComputeGroupStatuses ddc'), dropFailedEvents log')) =
     ([''cg0'', ''old_cg''], [])"
  by (simp add: ClearResources_def ClearStatefulsetUnusedPVCs_def scaledOutBENodesBySQL_def
      reservePVCNames_def upt_rec Let_def ddcGone_def ddc0_def cg0_def status0_def envServiceStays_def envNoMaster_def
      env0_def go_defs)

end
